theory Spec2Isabelle
  imports Complex_Main "HOL-Library.AList" "HOL-Library.Sublist"
begin

section \<open>Data model\<close>

text \<open>
  The two dashboards (\<^verbatim>\<open>Peta-Selection.py\<close> and \<^verbatim>\<open>Peta-Selection-v4.py\<close>) share the
  loader and the selection logic of \<^verbatim>\<open>main\<close>. A pandas cell that is NaN, None or NaT is
  \<open>None\<close> here. Coordinates and elevations are exact reals: the rounding of the
  floating-point arithmetic is outside the model.
\<close>

datatype py_error =
    KeyError | ValueError | IndexError | AttributeError | NameError | ReError

text \<open>A station id cell is numeric or text, as the spreadsheet stores it.\<close>

datatype idval = IdInt int | IdStr string

record date =
  year :: nat
  month :: nat
  day :: nat

text \<open>One spreadsheet row, projected on the sixteen columns the loader selects.\<close>

record site =
  id_station :: idval
  name_station :: "string option"
  nama_propinsi :: "string option"
  nama_kota :: "string option"
  kecamatan :: "string option"
  kelurahan :: "string option"
  latt_station :: "real option"
  long_station :: "real option"
  elv_station :: "real option"
  status_operasional :: "string option"
  hp_petugas :: "string option"
  tgl_pasang :: "date option"
  addr_instansi :: "string option"
  data_transport :: "string option"
  instansi :: "string option"
  nama_vendor :: "string option"

text \<open>A row of the unified table: the projected row and the sheet it came from.\<close>

record station = site +
  JENIS :: string

record sheet =
  sheet_name :: string
  sheet_columns :: "string list"
  sheet_rows :: "site list"

type_synonym workbook = "sheet list"

section \<open>The loader\<close>

definition required_columns :: "string list" where
  "required_columns =
     [''id_station'', ''name_station'', ''nama_propinsi'', ''nama_kota'', ''kecamatan'',
      ''kelurahan'', ''latt_station'', ''long_station'', ''elv_station'',
      ''status_operasional'', ''hp_petugas'', ''tgl_pasang'', ''addr_instansi'',
      ''data_transport'', ''instansi'', ''nama_vendor'']"

text \<open>\<^verbatim>\<open>xls.parse(sheet)\<close>: the sheet of that name.\<close>

definition parse :: "workbook \<Rightarrow> string \<Rightarrow> sheet option" where
  "parse wb s = find (\<lambda>sh. sheet_name sh = s) wb"

text \<open>\<^verbatim>\<open>frame[[...]]\<close>: a column that the sheet lacks raises KeyError.\<close>

definition project :: "sheet \<Rightarrow> py_error + site list" where
  "project sh =
     (if set required_columns \<subseteq> set (sheet_columns sh) then Inr (sheet_rows sh)
      else Inl KeyError)"

definition has_coords :: "'a site_scheme \<Rightarrow> bool" where
  "has_coords r = (latt_station r \<noteq> None \<and> long_station r \<noteq> None)"

text \<open>\<^verbatim>\<open>.dropna(subset=['latt_station', 'long_station'])\<close>\<close>

definition dropna :: "site list \<Rightarrow> site list" where
  "dropna rows = filter has_coords rows"

text \<open>\<^verbatim>\<open>.assign(JENIS=sheet)\<close>\<close>

definition assign_JENIS :: "string \<Rightarrow> site \<Rightarrow> station" where
  "assign_JENIS s r =
     \<lparr> id_station = id_station r, name_station = name_station r,
       nama_propinsi = nama_propinsi r, nama_kota = nama_kota r,
       kecamatan = kecamatan r, kelurahan = kelurahan r,
       latt_station = latt_station r, long_station = long_station r,
       elv_station = elv_station r, status_operasional = status_operasional r,
       hp_petugas = hp_petugas r, tgl_pasang = tgl_pasang r,
       addr_instansi = addr_instansi r, data_transport = data_transport r,
       instansi = instansi r, nama_vendor = nama_vendor r, JENIS = s \<rparr>"

definition sheet_frame :: "sheet \<Rightarrow> station list" where
  "sheet_frame sh = map (assign_JENIS (sheet_name sh)) (dropna (sheet_rows sh))"

text \<open>
  The dictionary comprehension \<^verbatim>\<open>{sheet: ... for sheet in sheets}\<close>: the keys of
  \<^verbatim>\<open>sheets\<close> in order, each entry stored under its sheet name in an
  insertion-ordered dictionary (a key stored again keeps its place).
\<close>

fun build_dfs ::
  "workbook \<Rightarrow> string list \<Rightarrow> (string \<times> station list) list
     \<Rightarrow> py_error + (string \<times> station list) list" where
  "build_dfs wb [] dfs = Inr dfs"
| "build_dfs wb (s # ss) dfs =
     (case parse wb s of
        None \<Rightarrow> Inl ValueError
      | Some sh \<Rightarrow>
          (case project sh of
             Inl e \<Rightarrow> Inl e
           | Inr rows \<Rightarrow>
               build_dfs wb ss
                 (AList.update s (map (assign_JENIS s) (dropna rows)) dfs)))"

text \<open>\<^verbatim>\<open>pd.concat(frames, ignore_index=True)\<close>: no frame at all raises ValueError.\<close>

definition pd_concat :: "'a list list \<Rightarrow> py_error + 'a list" where
  "pd_concat frames = (if frames = [] then Inl ValueError else Inr (concat frames))"

text \<open>
  \<^verbatim>\<open>load_site_metadata\<close>: every exception is caught and the function returns None.
\<close>

definition load_site_metadata :: "workbook \<Rightarrow> station list option" where
  "load_site_metadata wb =
     (case build_dfs wb (map sheet_name wb) [] of
        Inl e \<Rightarrow> None
      | Inr dfs \<Rightarrow>
          (case pd_concat (map snd dfs) of
             Inl e \<Rightarrow> None
           | Inr df \<Rightarrow> Some df))"

section \<open>Python values and strings\<close>

text \<open>\<^verbatim>\<open>str(n)\<close> of an integer: its decimal digits, with a minus sign when negative.\<close>

definition digit_char :: "nat \<Rightarrow> char" where
  "digit_char d = ''0123456789'' ! d"

function str_nat :: "nat \<Rightarrow> string" where
  "str_nat n =
     (if n < 10 then [digit_char n] else str_nat (n div 10) @ [digit_char (n mod 10)])"
  by pat_completeness auto
termination
  by (relation "measure id") auto

declare str_nat.simps [simp del]

definition str_int :: "int \<Rightarrow> string" where
  "str_int i = (if i < 0 then CHR ''-'' # str_nat (nat (- i)) else str_nat (nat i))"

text \<open>\<^verbatim>\<open>str(x)\<close> and \<^verbatim>\<open>.astype(str)\<close> on a station id.\<close>

fun py_str :: "idval \<Rightarrow> string" where
  "py_str (IdInt i) = str_int i"
| "py_str (IdStr s) = s"

text \<open>
  \<^verbatim>\<open>s.split(sep)\<close> for a non-empty separator: the pieces between the occurrences of
  \<open>sep\<close>, found from the left without overlap. (Python raises on the empty separator;
  the source always splits on \<^verbatim>\<open>" - "\<close>.)
\<close>

function split_tokens :: "string \<Rightarrow> string \<Rightarrow> string list" where
  "split_tokens sep [] = [[]]"
| "split_tokens sep (c # cs) =
     (if sep \<noteq> [] \<and> prefix sep (c # cs)
      then [] # split_tokens sep (drop (length sep) (c # cs))
      else (case split_tokens sep cs of
              [] \<Rightarrow> [[c]]
            | t # ts \<Rightarrow> (c # t) # ts))"
  by pat_completeness auto
termination
  by (relation "measure (\<lambda>(sep, s). length s)") auto

text \<open>\<^verbatim>\<open>xs[0]\<close> and \<^verbatim>\<open>.iloc[0]\<close>: IndexError when there is no element.\<close>

definition index0 :: "'a list \<Rightarrow> py_error + 'a" where
  "index0 xs = (case xs of [] \<Rightarrow> Inl IndexError | x # _ \<Rightarrow> Inr x)"

text \<open>\<^verbatim>\<open>s.find(sep)\<close>: where the first occurrence of \<open>sep\<close> starts, if there is one.\<close>

fun str_find :: "string \<Rightarrow> string \<Rightarrow> nat option" where
  "str_find sep [] = (if sep = [] then Some 0 else None)"
| "str_find sep (c # cs) =
     (if prefix sep (c # cs) then Some 0 else map_option Suc (str_find sep cs))"

text \<open>
  Lower case of an ASCII letter. Two characters are equal up to case when their lower
  cases agree.
\<close>

definition lower_char :: "char \<Rightarrow> char" where
  "lower_char c =
     (case map_of (zip ''ABCDEFGHIJKLMNOPQRSTUVWXYZ'' ''abcdefghijklmnopqrstuvwxyz'') c of
        Some d \<Rightarrow> d
      | None \<Rightarrow> c)"

text \<open>\<^verbatim>\<open>s.strip()\<close>: leading and trailing white space removed.\<close>

definition is_space :: "char \<Rightarrow> bool" where
  "is_space c = (c \<in> set [CHR '' '', CHR 0x09, CHR 0x0A, CHR 0x0B, CHR 0x0C, CHR 0x0D])"

definition strip :: "string \<Rightarrow> string" where
  "strip s = rev (dropWhile is_space (rev (dropWhile is_space s)))"

text \<open>Dates: \<^verbatim>\<open>strftime\<close> with two-digit month and day.\<close>

definition pad2 :: "nat \<Rightarrow> string" where
  "pad2 n = (if n < 10 then CHR ''0'' # str_nat n else str_nat n)"

definition strftime_mdY :: "date \<Rightarrow> string" where
  "strftime_mdY d = pad2 (month d) @ ''/'' @ pad2 (day d) @ ''/'' @ str_nat (year d)"

definition strftime_dmY :: "date \<Rightarrow> string" where
  "strftime_dmY d = pad2 (day d) @ ''/'' @ pad2 (month d) @ ''/'' @ str_nat (year d)"

text \<open>
  A value held in \<^verbatim>\<open>st.session_state\<close>: Python stores whatever it is given, a string
  or a number.
\<close>

datatype pyval = PyStr string | PyInt int

fun is_str :: "pyval \<Rightarrow> bool" where
  "is_str (PyStr s) = True"
| "is_str (PyInt i) = False"

text \<open>\<^verbatim>\<open>==\<close> between a string and a stored value: a number never equals a string.\<close>

fun str_eq :: "string \<Rightarrow> pyval \<Rightarrow> bool" where
  "str_eq s (PyStr t) = (s = t)"
| "str_eq s (PyInt i) = False"

text \<open>
  \<^verbatim>\<open>df['id_station'] == s\<close> on one cell, with \<open>s\<close> a string: a numeric cell is
  not equal to any string.
\<close>

fun id_eq :: "idval \<Rightarrow> string \<Rightarrow> bool" where
  "id_eq (IdStr t) s = (t = s)"
| "id_eq (IdInt i) s = False"

text \<open>An interpolated text cell in an f-string: a missing cell prints as \<^verbatim>\<open>nan\<close>.\<close>

definition fmt :: "string option \<Rightarrow> string" where
  "fmt cell = (case cell of None \<Rightarrow> ''nan'' | Some s \<Rightarrow> s)"

section \<open>Views of the unified table\<close>

text \<open>\<^verbatim>\<open>df["JENIS"].unique().tolist()\<close>: the sheet names in order of first appearance.\<close>

definition unique :: "'a list \<Rightarrow> 'a list" where
  "unique xs = rev (remdups (rev xs))"

definition station_types :: "station list \<Rightarrow> string list" where
  "station_types df = unique (map JENIS df)"

text \<open>
  \<^verbatim>\<open>get_filtered_data\<close>, and the same filter written inline in the second dashboard:
  a copy of the rows of one type. No type selected (\<open>None\<close>) matches no row.
\<close>

definition get_filtered_data :: "station list \<Rightarrow> string option \<Rightarrow> station list" where
  "get_filtered_data df station_type = filter (\<lambda>r. Some (JENIS r) = station_type) df"

text \<open>The two columns added to the filtered copy.\<close>

definition id_station_str :: "'a site_scheme \<Rightarrow> string" where
  "id_station_str r = py_str (id_station r)"

text \<open>
  \<^verbatim>\<open>id_station_str + " - " + name_station\<close>: string concatenation with a missing name
  gives a missing value.
\<close>

definition display :: "'a site_scheme \<Rightarrow> string option" where
  "display r =
     (case name_station r of
        None \<Rightarrow> None
      | Some n \<Rightarrow> Some (id_station_str r @ '' - '' @ n))"

text \<open>Position of the first element that satisfies a test.\<close>

fun first_pos :: "('a \<Rightarrow> bool) \<Rightarrow> 'a list \<Rightarrow> nat option" where
  "first_pos P [] = None"
| "first_pos P (x # xs) = (if P x then Some 0 else map_option Suc (first_pos P xs))"

text \<open>
  The \<^verbatim>\<open>try\<close> block of the sidebar: the position in the filtered rows of the first
  row whose id string equals the stored selection; IndexError is caught and gives 0.
\<close>

definition default_index :: "station list \<Rightarrow> pyval \<Rightarrow> nat" where
  "default_index filtered_df selected_id_str =
     (case first_pos (\<lambda>r. str_eq (id_station_str r) selected_id_str) filtered_df of
        Some i \<Rightarrow> i
      | None \<Rightarrow> 0)"

subsection \<open>Nearest station\<close>

text \<open>
  \<^verbatim>\<open>(df['latt_station'] - lat) ** 2 + (df['long_station'] - lon) ** 2\<close> on one row;
  a missing coordinate gives a missing distance.
\<close>

definition dist2 :: "real \<Rightarrow> real \<Rightarrow> 'a site_scheme \<Rightarrow> real option" where
  "dist2 lat lon r =
     (case latt_station r of
        None \<Rightarrow> None
      | Some a \<Rightarrow>
          (case long_station r of
             None \<Rightarrow> None
           | Some b \<Rightarrow> Some ((a - lat)\<^sup>2 + (b - lon)\<^sup>2)))"

text \<open>
  \<^verbatim>\<open>Series.idxmin()\<close>: a scan from the left that keeps the first position of the
  least value and skips missing values. The index of the unified table is
  \<open>0, 1, 2, ...\<close> (\<^verbatim>\<open>ignore_index=True\<close>), so labels are positions.
\<close>

fun idxmin_from ::
  "('k::linorder) option list \<Rightarrow> nat \<Rightarrow> (nat \<times> 'k) option \<Rightarrow> (nat \<times> 'k) option" where
  "idxmin_from [] i best = best"
| "idxmin_from (None # vs) i best = idxmin_from vs (Suc i) best"
| "idxmin_from (Some v # vs) i best =
     idxmin_from vs (Suc i)
       (case best of
          None \<Rightarrow> Some (i, v)
        | Some (j, m) \<Rightarrow> if v < m then Some (i, v) else Some (j, m))"

definition idxmin :: "('k::linorder) option list \<Rightarrow> py_error + nat" where
  "idxmin vs =
     (case idxmin_from vs 0 None of
        None \<Rightarrow> Inl ValueError
      | Some (i, m) \<Rightarrow> Inr i)"

text \<open>\<^verbatim>\<open>df.loc[(...).idxmin()]\<close>\<close>

definition nearest :: "station list \<Rightarrow> real \<Rightarrow> real \<Rightarrow> py_error + station" where
  "nearest df lat lon =
     (case idxmin (map (dist2 lat lon) df) of
        Inl e \<Rightarrow> Inl e
      | Inr i \<Rightarrow> Inr (df ! i))"

subsection \<open>Record of the selected station\<close>

text \<open>
  \<^verbatim>\<open>df[df['id_station'] == selected_id_station].iloc[0]\<close>. The local variable
  \<^verbatim>\<open>selected_id_station\<close> is bound only when the filtered table is not empty
  (\<open>None\<close>: unbound, NameError).
\<close>

definition lookup_selected :: "station list \<Rightarrow> string option \<Rightarrow> py_error + station" where
  "lookup_selected df selected =
     (case selected of
        None \<Rightarrow> Inl NameError
      | Some s \<Rightarrow> index0 (filter (\<lambda>r. id_eq (id_station r) s) df))"

text \<open>
  The lookup as the specification words it: within one partition, on the string form of
  the id, with an absent id reported and not raised.
\<close>

definition byId_spec :: "station list \<Rightarrow> string \<Rightarrow> string \<Rightarrow> station option" where
  "byId_spec df ty sid =
     find (\<lambda>r. id_station_str r = sid) (get_filtered_data df (Some ty))"

subsection \<open>Detail panel\<close>

text \<open>
  The two markdown blocks of the detail panel of \<^verbatim>\<open>Peta-Selection.py\<close>, one field per
  interpolation. Coordinates and elevation are kept as numbers: the printing of floats
  is outside the model.
\<close>

record detail_panel =
  p_title :: string
  p_station_id :: string
  p_station_name :: string
  p_data_transport :: string
  p_province :: string
  p_district :: string
  p_subdistrict :: string
  p_village :: string
  p_latitude :: "real option"
  p_longitude :: "real option"
  p_elevation :: "real option"
  p_agency :: string
  p_procurement_date :: string
  p_vendor :: string
  p_phone :: string
  p_address :: string

text \<open>
  \<^verbatim>\<open>selected_site['tgl_pasang'].strftime("%m/%d/%Y")\<close> is called with no test for a
  missing date; on NaT it raises ValueError.
\<close>

definition render_detail :: "station \<Rightarrow> py_error + detail_panel" where
  "render_detail selected_site =
     (let phone_str = (case hp_petugas selected_site of
                         None \<Rightarrow> ''N/A''
                       | Some p \<Rightarrow> strip p)
      in case tgl_pasang selected_site of
           None \<Rightarrow> Inl ValueError
         | Some d \<Rightarrow>
             Inr \<lparr> p_title = fmt (name_station selected_site),
                   p_station_id = py_str (id_station selected_site),
                   p_station_name = fmt (name_station selected_site),
                   p_data_transport =
                     (case data_transport selected_site of None \<Rightarrow> ''N/A'' | Some t \<Rightarrow> t),
                   p_province = fmt (nama_propinsi selected_site),
                   p_district = fmt (nama_kota selected_site),
                   p_subdistrict = fmt (kecamatan selected_site),
                   p_village = fmt (kelurahan selected_site),
                   p_latitude = latt_station selected_site,
                   p_longitude = long_station selected_site,
                   p_elevation = elv_station selected_site,
                   p_agency = (case instansi selected_site of None \<Rightarrow> [] | Some a \<Rightarrow> a),
                   p_procurement_date = strftime_mdY d,
                   p_vendor = fmt (nama_vendor selected_site),
                   p_phone = phone_str,
                   p_address =
                     (case addr_instansi selected_site of None \<Rightarrow> ''N/A'' | Some a \<Rightarrow> a) \<rparr>)"

text \<open>
  The popup of \<^verbatim>\<open>create_selective_map\<close> formats the same date behind a test
  (\<^verbatim>\<open>pd.notna(...)\<close>, else \<^verbatim>\<open>'N/A'\<close>).
\<close>

definition popup_install_date :: "'a site_scheme \<Rightarrow> string" where
  "popup_install_date site =
     (case tgl_pasang site of None \<Rightarrow> ''N/A'' | Some d \<Rightarrow> strftime_mdY d)"

text \<open>
  The first \<^verbatim>\<open>" - "\<close> of a record's display string is the separator that \<open>display\<close>
  put there (and the record has a name).
\<close>

definition display_round_trips :: "'a site_scheme \<Rightarrow> bool" where
  "display_round_trips r =
     (case name_station r of
        None \<Rightarrow> False
      | Some n \<Rightarrow>
          str_find '' - '' (id_station_str r @ '' - '' @ n) = Some (length (id_station_str r)))"

section \<open>Search and the station directory\<close>

text \<open>
  \<^verbatim>\<open>Series.str.contains(term, case=False, na=False)\<close> compiles the term as a regular
  expression (pandas' default \<^verbatim>\<open>regex=True\<close>) with \<^verbatim>\<open>re.IGNORECASE\<close> and searches each
  cell for a match. The model covers the patterns made of ordinary characters and the
  dot; a term with any other operator of the regular-expression syntax is outside the
  modelled fragment (\<open>None\<close>).
\<close>

datatype re_item = Lit char | Dot

definition re_special :: "char list" where
  "re_special = ''.^$*+?{}[]|()'' @ [CHR 0x5C]"

fun re_compile :: "string \<Rightarrow> re_item list option" where
  "re_compile [] = Some []"
| "re_compile (c # cs) =
     (if c = CHR ''.'' then map_option ((#) Dot) (re_compile cs)
      else if c \<in> set re_special then None
      else map_option ((#) (Lit c)) (re_compile cs))"

text \<open>A literal matches up to case; the dot matches every character but the newline.\<close>

fun item_match :: "re_item \<Rightarrow> char \<Rightarrow> bool" where
  "item_match (Lit c) d = (lower_char c = lower_char d)"
| "item_match Dot d = (d \<noteq> CHR 0x0A)"

fun match_here :: "re_item list \<Rightarrow> string \<Rightarrow> bool" where
  "match_here [] s = True"
| "match_here (i # is) [] = False"
| "match_here (i # is) (c # cs) = (item_match i c \<and> match_here is cs)"

fun re_search :: "re_item list \<Rightarrow> string \<Rightarrow> bool" where
  "re_search p [] = match_here p []"
| "re_search p (c # cs) = (match_here p (c # cs) \<or> re_search p cs)"

text \<open>One cell of the mask; a missing cell does not match (\<^verbatim>\<open>na=False\<close>).\<close>

definition cell_contains :: "re_item list \<Rightarrow> string option \<Rightarrow> bool" where
  "cell_contains p cell = (case cell of None \<Rightarrow> False | Some s \<Rightarrow> re_search p s)"

definition search_mask :: "re_item list \<Rightarrow> 'a site_scheme \<Rightarrow> bool" where
  "search_mask p r =
     (cell_contains p (name_station r) \<or> cell_contains p (nama_propinsi r)
      \<or> cell_contains p (nama_kota r))"

text \<open>
  The rows of \<^verbatim>\<open>search_df\<close>: \<^verbatim>\<open>if search_term:\<close> is false for the empty string, and
  then \<^verbatim>\<open>search_df = df\<close>.
\<close>

definition search :: "station list \<Rightarrow> string \<Rightarrow> station list option" where
  "search df search_term =
     (if search_term \<noteq> [] then
        (case re_compile search_term of
           None \<Rightarrow> None
         | Some p \<Rightarrow> Some (filter (search_mask p) df))
      else Some df)"

text \<open>
  Case-insensitive substring, as the specification words the match: the term occurs in
  the cell once both are put in lower case.
\<close>

definition ci_substring :: "string \<Rightarrow> string option \<Rightarrow> bool" where
  "ci_substring t cell =
     (case cell of
        None \<Rightarrow> False
      | Some s \<Rightarrow> sublist (map lower_char t) (map lower_char s))"

definition search_spec :: "station list \<Rightarrow> string \<Rightarrow> station list" where
  "search_spec df t =
     (if t = [] then df
      else filter (\<lambda>r. ci_substring t (name_station r) \<or> ci_substring t (nama_propinsi r)
                        \<or> ci_substring t (nama_kota r)) df)"

subsection \<open>Data frames as objects\<close>

text \<open>
  The directory tab assigns a column to \<^verbatim>\<open>search_df\<close>, which is either a new frame
  (\<^verbatim>\<open>df[mask]\<close>) or the loaded frame itself (\<^verbatim>\<open>search_df = df\<close>). Frames are therefore
  objects in a store, addressed by position; a frame holds its rows and the columns
  added to it after the load, by name.
\<close>

record frame =
  frame_rows :: "station list"
  frame_added :: "(string \<times> string option list) list"

type_synonym store = "frame list"

definition alloc :: "store \<Rightarrow> frame \<Rightarrow> store \<times> nat" where
  "alloc h f = (h @ [f], length h)"

text \<open>\<^verbatim>\<open>frame[mask]\<close>: a new frame with the rows where the mask holds, in every column.\<close>

definition mask_frame :: "(station \<Rightarrow> bool) \<Rightarrow> frame \<Rightarrow> frame" where
  "mask_frame P f =
     \<lparr> frame_rows = filter P (frame_rows f),
       frame_added =
         map (\<lambda>(name, vals). (name, map snd (filter (\<lambda>(r, v). P r) (zip (frame_rows f) vals))))
           (frame_added f) \<rparr>"

text \<open>\<^verbatim>\<open>frame[name] = values\<close>, in place.\<close>

definition set_column :: "string \<Rightarrow> string option list \<Rightarrow> frame \<Rightarrow> frame" where
  "set_column name vals f = f\<lparr>frame_added := AList.update name vals (frame_added f)\<rparr>"

text \<open>\<^verbatim>\<open>frame['tgl_pasang'].dt.strftime('%d/%m/%Y')\<close>: a missing date stays missing.\<close>

definition tgl_pasang_str :: "frame \<Rightarrow> string option list" where
  "tgl_pasang_str f = map (\<lambda>r. map_option strftime_dmY (tgl_pasang r)) (frame_rows f)"

text \<open>
  The directory tab up to the column assignment; the table widget and the CSV export
  that follow only read \<^verbatim>\<open>search_df\<close>. The result is the store and the address of
  \<^verbatim>\<open>search_df\<close>.
\<close>

definition directory :: "store \<Rightarrow> nat \<Rightarrow> string \<Rightarrow> (store \<times> nat) option" where
  "directory h df search_term =
     (let found =
        (if search_term \<noteq> [] then
           (case re_compile search_term of
              None \<Rightarrow> None
            | Some p \<Rightarrow> Some (alloc h (mask_frame (search_mask p) (h ! df))))
         else Some (h, df))
      in case found of
           None \<Rightarrow> None
         | Some (h1, search_df) \<Rightarrow>
             Some (h1[search_df :=
                       set_column ''tgl_pasang_str'' (tgl_pasang_str (h1 ! search_df))
                         (h1 ! search_df)],
                   search_df))"

section \<open>Selection state and the script\<close>

text \<open>
  The values the widgets hold when the script runs: the position chosen in the
  station-type radio (0 at first), the position picked in the station selectbox (\<open>None\<close>
  while the widget shows its default index), the last object clicked on the map, whether
  the button "Use this station in selection" was pressed, and the search box.
\<close>

record widgets =
  radio_choice :: nat
  dropdown_pick :: "nat option"
  last_object_clicked :: "(real \<times> real) option"
  use_button :: bool
  search_term :: string

text \<open>
  A session: the widgets and \<^verbatim>\<open>st.session_state.selected_id_station\<close> (\<open>None\<close>: the key
  is not in the session state).
\<close>

record streamlit =
  widget_values :: widgets
  selected_id_station :: "pyval option"

datatype 'a outcome = Done 'a | Raised py_error | Rerun

text \<open>\<^verbatim>\<open>if "selected_id_station" not in st.session_state: ... = "10001"\<close>\<close>

definition init_session :: "streamlit \<Rightarrow> streamlit" where
  "init_session st =
     (case selected_id_station st of
        None \<Rightarrow> st\<lparr>selected_id_station := Some (PyStr ''10001'')\<rparr>
      | Some v \<Rightarrow> st)"

text \<open>\<^verbatim>\<open>st.sidebar.radio\<close>: the option at the chosen position; no option gives None.\<close>

definition radio :: "'a list \<Rightarrow> nat \<Rightarrow> 'a option" where
  "radio options i = (if i < length options then Some (options ! i) else None)"

definition active_type :: "station list \<Rightarrow> streamlit \<Rightarrow> string option" where
  "active_type df st = radio (station_types df) (radio_choice (widget_values st))"

text \<open>
  \<^verbatim>\<open>st.sidebar.selectbox(options=..., index=...)\<close>: the user's pick, or the option at
  the default index when the user has not picked (or the pick is not an option any more).
\<close>

definition selectbox :: "'a list \<Rightarrow> nat \<Rightarrow> nat option \<Rightarrow> py_error + 'a" where
  "selectbox options index pick =
     (if index < length options then
        (case pick of
           None \<Rightarrow> Inr (options ! index)
         | Some i \<Rightarrow> if i < length options then Inr (options ! i) else Inr (options ! index))
      else Inl IndexError)"

text \<open>
  The sidebar block: the dropdown of display names and the write of
  \<^verbatim>\<open>st.session_state.selected_id_station\<close>. It gives the session and the local variable
  \<^verbatim>\<open>selected_id_station\<close>, which stays unbound (\<open>None\<close>) when the filtered table is
  empty. A missing display name is a float and has no \<^verbatim>\<open>split\<close> (AttributeError).
\<close>

definition sidebar_block ::
  "station list \<Rightarrow> string option \<Rightarrow> streamlit \<Rightarrow> streamlit \<times> string option outcome" where
  "sidebar_block df selected_type st =
     (let filtered_df = get_filtered_data df selected_type;
          filtered_display_list = map display filtered_df
      in case selected_id_station st of
           None \<Rightarrow> (st, Raised AttributeError)
         | Some selected_id_str \<Rightarrow>
             if filtered_df \<noteq> [] then
               (case selectbox filtered_display_list
                       (default_index filtered_df selected_id_str)
                       (dropdown_pick (widget_values st)) of
                  Inl e \<Rightarrow> (st, Raised e)
                | Inr None \<Rightarrow> (st, Raised AttributeError)
                | Inr (Some selected_site_display) \<Rightarrow>
                    (case index0 (split_tokens '' - '' selected_site_display) of
                       Inl e \<Rightarrow> (st, Raised e)
                     | Inr sid \<Rightarrow>
                         (if \<not> str_eq sid selected_id_str
                          then st\<lparr>selected_id_station := Some (PyStr sid)\<rparr>
                          else st,
                          Done (Some sid))))
             else (st, Done None))"

text \<open>
  The map-click block: the nearest station to the click is shown, and only the button
  writes it into the session state, followed by \<^verbatim>\<open>st.rerun()\<close>.
\<close>

definition click_block :: "station list \<Rightarrow> streamlit \<Rightarrow> streamlit \<times> unit outcome" where
  "click_block df st =
     (case last_object_clicked (widget_values st) of
        None \<Rightarrow> (st, Done ())
      | Some (clicked_lat, clicked_lon) \<Rightarrow>
          (case nearest df clicked_lat clicked_lon of
             Inl e \<Rightarrow> (st, Raised e)
           | Inr clicked_station \<Rightarrow>
               if use_button (widget_values st)
               then (st\<lparr>selected_id_station :=
                          Some (PyStr (py_str (id_station clicked_station)))\<rparr>, Rerun)
               else (st, Done ())))"

text \<open>
  \<^verbatim>\<open>main\<close> of \<^verbatim>\<open>Peta-Selection.py\<close>, as far as it reads or writes the session state or can
  raise on the way: the early return, the initialisation, the sidebar, the map click,
  the lookup of the selected record and its detail panel. An exception ends the run and
  keeps the writes made before it. \<^verbatim>\<open>Peta-Selection-v4.py\<close> runs the same blocks, with
  the directory tab before the detail panel.
\<close>

definition main :: "station list option \<Rightarrow> streamlit \<Rightarrow> streamlit \<times> unit outcome" where
  "main loaded st0 =
     (case loaded of
        None \<Rightarrow> (st0, Done ())
      | Some df \<Rightarrow>
          (let st1 = init_session st0 in
           case sidebar_block df (active_type df st1) st1 of
             (st2, Raised e) \<Rightarrow> (st2, Raised e)
           | (st2, Rerun) \<Rightarrow> (st2, Rerun)
           | (st2, Done selected) \<Rightarrow>
               (case click_block df st2 of
                  (st3, Raised e) \<Rightarrow> (st3, Raised e)
                | (st3, Rerun) \<Rightarrow> (st3, Rerun)
                | (st3, Done u) \<Rightarrow>
                    (case lookup_selected df selected of
                       Inl e \<Rightarrow> (st3, Raised e)
                     | Inr selected_site \<Rightarrow>
                         (case render_detail selected_site of
                            Inl e \<Rightarrow> (st3, Raised e)
                          | Inr panel \<Rightarrow> (st3, Done ()))))))"

text \<open>
  One interaction: the widgets take the user's values and the script runs;
  \<^verbatim>\<open>st.rerun()\<close> runs it once more, the button no longer pressed.
\<close>

definition interact :: "station list option \<Rightarrow> streamlit \<Rightarrow> widgets \<Rightarrow> streamlit" where
  "interact loaded st w =
     (case main loaded (st\<lparr>widget_values := w\<rparr>) of
        (st1, Rerun) \<Rightarrow>
          fst (main loaded (st1\<lparr>widget_values := w\<lparr>use_button := False\<rparr>\<rparr>))
      | (st1, out) \<Rightarrow> st1)"

fun session :: "station list option \<Rightarrow> streamlit \<Rightarrow> widgets list \<Rightarrow> streamlit" where
  "session loaded st [] = st"
| "session loaded st (w # ws) = session loaded (interact loaded st w) ws"

definition new_session :: "widgets \<Rightarrow> streamlit" where
  "new_session w = \<lparr> widget_values = w, selected_id_station = None \<rparr>"

definition str_or_unset :: "pyval option \<Rightarrow> bool" where
  "str_or_unset v = (case v of None \<Rightarrow> True | Some x \<Rightarrow> is_str x)"

text \<open>The key is in the session state and holds a string.\<close>

definition is_set_str :: "pyval option \<Rightarrow> bool" where
  "is_set_str v = (case v of None \<Rightarrow> False | Some x \<Rightarrow> is_str x)"

section \<open>Example data\<close>

definition blank_site :: site where
  "blank_site =
     \<lparr> id_station = IdInt 0, name_station = None, nama_propinsi = None, nama_kota = None,
       kecamatan = None, kelurahan = None, latt_station = None, long_station = None,
       elv_station = None, status_operasional = None, hp_petugas = None,
       tgl_pasang = None, addr_instansi = None, data_transport = None, instansi = None,
       nama_vendor = None \<rparr>"

text \<open>The two sheets of the loader example: one AWS row has no latitude.\<close>

definition ex_aws_1 :: site where
  "ex_aws_1 = blank_site\<lparr>id_station := IdInt 1, latt_station := Some (- 2),
                          long_station := Some 110\<rparr>"

definition ex_aws_2 :: site where
  "ex_aws_2 = blank_site\<lparr>id_station := IdInt 2, long_station := Some 112\<rparr>"

definition ex_arg_1 :: site where
  "ex_arg_1 = blank_site\<lparr>id_station := IdInt 1, latt_station := Some 3,
                          long_station := Some 98\<rparr>"

definition ex_workbook :: workbook where
  "ex_workbook =
     [\<lparr> sheet_name = ''AWS'', sheet_columns = required_columns,
        sheet_rows = [ex_aws_1, ex_aws_2] \<rparr>,
      \<lparr> sheet_name = ''ARG'', sheet_columns = required_columns,
        sheet_rows = [ex_arg_1] \<rparr>]"

text \<open>A small unified table: two AWS stations and one ARG station.\<close>

definition mk_station :: "string \<Rightarrow> idval \<Rightarrow> string option \<Rightarrow> real \<Rightarrow> real \<Rightarrow> station" where
  "mk_station ty i name lat lon =
     assign_JENIS ty (blank_site\<lparr>id_station := i, name_station := name,
                                  latt_station := Some lat, long_station := Some lon\<rparr>)"

definition ex_table :: "station list" where
  "ex_table =
     [mk_station ''AWS'' (IdStr ''10001'') (Some ''Alpha'') 0 0,
      mk_station ''AWS'' (IdStr ''10002'') (Some ''Beta'') 2 0,
      mk_station ''ARG'' (IdStr ''20001'') (Some ''Gamma'') 0 2]"

text \<open>Widgets nobody has touched, a table with a numeric id, and the loaded frame.\<close>

definition idle_widgets :: widgets where
  "idle_widgets =
     \<lparr> radio_choice = 0, dropdown_pick = None, last_object_clicked = None,
       use_button = False, search_term = [] \<rparr>"

definition ex_numeric :: "station list" where
  "ex_numeric = [mk_station ''AWS'' (IdInt 10001) (Some ''Alpha'') 0 0]"

definition ex_frame :: frame where
  "ex_frame = \<lparr> frame_rows = ex_table, frame_added = [] \<rparr>"

text \<open>A record whose id contains the separator, and a record with no name.\<close>

definition ex_dashed :: station where
  "ex_dashed = mk_station ''ARG'' (IdStr ''A - 1'') (Some ''Hulu'') 4 4"

definition ex_nameless :: station where
  "ex_nameless = mk_station ''ARG'' (IdStr ''30001'') None 5 5"

text \<open>Tables whose ARG partition starts with one of these records.\<close>

definition ex_cross :: "station list" where
  "ex_cross = [mk_station ''AWS'' (IdStr ''10001'') (Some ''Alpha'') 0 0, ex_dashed]"

definition ex_cross_nameless :: "station list" where
  "ex_cross_nameless = [mk_station ''AWS'' (IdStr ''10001'') (Some ''Alpha'') 0 0, ex_nameless]"

text \<open>A click on the map next to the ARG station, without and with the button.\<close>

definition ex_click_widgets :: widgets where
  "ex_click_widgets = idle_widgets\<lparr>last_object_clicked := Some (0, 3)\<rparr>"

definition ex_press_widgets :: widgets where
  "ex_press_widgets = ex_click_widgets\<lparr>use_button := True\<rparr>"

text \<open>Two stations with provinces, for the search example.\<close>

definition ex_jakarta :: "station list" where
  "ex_jakarta =
     [(mk_station ''AWS'' (IdStr ''10001'') (Some ''Kemayoran'') (- 6) 107)
        \<lparr>nama_propinsi := Some ''DKI Jakarta''\<rparr>,
      (mk_station ''AWS'' (IdStr ''10002'') (Some ''Lembang'') (- 7) 108)
        \<lparr>nama_propinsi := Some ''Jawa Barat''\<rparr>]"

text \<open>The example table with install dates, and the radio on the second type.\<close>

definition ex_dated :: "station list" where
  "ex_dated = map (\<lambda>r. r\<lparr>tgl_pasang := Some \<lparr> year = 2020, month = 1, day = 15 \<rparr>\<rparr>) ex_table"

definition ex_arg_widgets :: widgets where
  "ex_arg_widgets = idle_widgets\<lparr>radio_choice := 1\<rparr>"

section \<open>The loader keeps exactly the rows with coordinates\<close>

lemma update_fresh: "k \<notin> fst ` set al \<Longrightarrow> AList.update k v al = al @ [(k, v)]"
  by (induction al) auto

lemma parse_distinct:
  "distinct (map sheet_name wb) \<Longrightarrow> sh \<in> set wb \<Longrightarrow> parse wb (sheet_name sh) = Some sh"
  unfolding parse_def by (induction wb) auto

lemma project_ok:
  "set required_columns \<subseteq> set (sheet_columns sh) \<Longrightarrow> project sh = Inr (sheet_rows sh)"
  by (simp add: project_def)

lemma build_dfs_ok:
  "distinct (map sheet_name ss) \<Longrightarrow> sheet_name ` set ss \<inter> fst ` set dfs = {} \<Longrightarrow>
   \<forall>sh \<in> set ss. parse wb (sheet_name sh) = Some sh \<and> set required_columns \<subseteq> set (sheet_columns sh) \<Longrightarrow>
   build_dfs wb (map sheet_name ss) dfs = Inr (dfs @ map (\<lambda>sh. (sheet_name sh, sheet_frame sh)) ss)"
proof (induction ss arbitrary: dfs)
  case Nil
  then show ?case by simp
next
  case (Cons sh ss)
  have fresh: "sheet_name sh \<notin> fst ` set dfs" using Cons.prems(2) by auto
  let ?dfs = "dfs @ [(sheet_name sh, sheet_frame sh)]"
  have disj: "sheet_name ` set ss \<inter> fst ` set ?dfs = {}"
    using Cons.prems(1,2) by auto
  have "build_dfs wb (map sheet_name ss) ?dfs = Inr (?dfs @ map (\<lambda>sh. (sheet_name sh, sheet_frame sh)) ss)"
    using Cons.IH [OF _ disj] Cons.prems(1,3) by simp
  then show ?case
    using Cons.prems(3) fresh by (simp add: project_ok update_fresh sheet_frame_def)
qed

lemma build_dfs_fail:
  "sh \<in> set ss \<Longrightarrow> \<forall>sh \<in> set ss. parse wb (sheet_name sh) = Some sh \<Longrightarrow>
   \<not> set required_columns \<subseteq> set (sheet_columns sh) \<Longrightarrow>
   \<exists>e. build_dfs wb (map sheet_name ss) dfs = Inl e"
  by (induction ss arbitrary: dfs) (auto simp: project_def)

lemma load_ok:
  assumes "distinct (map sheet_name wb)" "wb \<noteq> []"
    "\<forall>sh \<in> set wb. set required_columns \<subseteq> set (sheet_columns sh)"
  shows "load_site_metadata wb = Some (concat (map sheet_frame wb))"
proof -
  have "build_dfs wb (map sheet_name wb) [] = Inr (map (\<lambda>sh. (sheet_name sh, sheet_frame sh)) wb)"
    using build_dfs_ok [of wb "[]" wb] assms parse_distinct by simp
  then show ?thesis using assms(2)
    by (simp add: load_site_metadata_def pd_concat_def comp_def)
qed

lemma load_None_iff:
  assumes "distinct (map sheet_name wb)"
  shows "load_site_metadata wb = None \<longleftrightarrow>
         wb = [] \<or> (\<exists>sh \<in> set wb. \<not> set required_columns \<subseteq> set (sheet_columns sh))"
proof (cases "wb = [] \<or> (\<exists>sh \<in> set wb. \<not> set required_columns \<subseteq> set (sheet_columns sh))")
  case False
  then show ?thesis using load_ok [OF assms] by auto
next
  case True
  then show ?thesis
  proof
    assume "wb = []" then show ?thesis by (simp add: load_site_metadata_def pd_concat_def)
  next
    assume "\<exists>sh \<in> set wb. \<not> set required_columns \<subseteq> set (sheet_columns sh)"
    then obtain sh where sh: "sh \<in> set wb" "\<not> set required_columns \<subseteq> set (sheet_columns sh)" by blast
    have "\<exists>e. build_dfs wb (map sheet_name wb) [] = Inl e"
      using build_dfs_fail [OF sh(1) _ sh(2)] parse_distinct [OF assms] by blast
    then show ?thesis using sh by (auto simp: load_site_metadata_def)
  qed
qed

lemma has_coords_assign [simp]: "has_coords (assign_JENIS s r) = has_coords r"
  by (simp add: has_coords_def assign_JENIS_def)

lemma set_concat_frames:
  "set (concat (map sheet_frame wb)) =
   {assign_JENIS (sheet_name sh) r | sh r. sh \<in> set wb \<and> r \<in> set (sheet_rows sh) \<and> has_coords r}"
  by (auto simp: sheet_frame_def dropna_def)

lemma length_concat_frames:
  "length (concat (map sheet_frame wb)) = (\<Sum>sh\<leftarrow>wb. length (filter has_coords (sheet_rows sh)))"
  by (induction wb) (simp_all add: sheet_frame_def dropna_def)

lemma truncate_assign [simp]: "site.truncate (assign_JENIS s r) = r"
  by (simp add: assign_JENIS_def site.truncate_def)

lemma JENIS_assign [simp]: "JENIS (assign_JENIS s r) = s"
  by (simp add: assign_JENIS_def)

lemma has_coords_unfold: "has_coords = (\<lambda>r. latt_station r \<noteq> None \<and> long_station r \<noteq> None)"
  by (rule ext) (simp add: has_coords_def)

lemma tagged_rows_concat_frames:
  "map (\<lambda>t. (JENIS t, site.truncate t)) (concat (map sheet_frame wb))
   = concat (map (\<lambda>sh. map (\<lambda>r. (sheet_name sh, r)) (filter has_coords (sheet_rows sh))) wb)"
  by (induction wb) (simp_all add: sheet_frame_def dropna_def comp_def)

text \<open>
  Claim C1. For a workbook whose sheets all have the required columns, the loader
  returns a table. Every row of it has a latitude and a longitude. Read without the
  sheet tag (\<open>site.truncate\<close>: the sixteen loaded columns), its rows are exactly the input
  rows that have both coordinates, unchanged, each under the name of its sheet, in sheet
  order and then row order; so every such input row is in the table, every row of the
  table is an input row of the sheet it names, and the length of the table is the number
  of input rows with both coordinates, summed over the sheets. (Sheet names are the keys
  of a dictionary, so they are distinct.)
\<close>

theorem load_drops_exactly_rows_without_coordinates:
  assumes "distinct (map sheet_name wb)" and "wb \<noteq> []"
    and "\<forall>sh \<in> set wb. set required_columns \<subseteq> set (sheet_columns sh)"
  shows "\<exists>df. load_site_metadata wb = Some df
     \<and> (\<forall>t \<in> set df. latt_station t \<noteq> None \<and> long_station t \<noteq> None)
     \<and> map (\<lambda>t. (JENIS t, site.truncate t)) df
         = concat (map (\<lambda>sh. map (\<lambda>r. (sheet_name sh, r))
                     (filter (\<lambda>r. latt_station r \<noteq> None \<and> long_station r \<noteq> None)
                        (sheet_rows sh))) wb)
     \<and> (\<forall>sh \<in> set wb. \<forall>r \<in> set (sheet_rows sh).
            latt_station r \<noteq> None \<and> long_station r \<noteq> None \<longrightarrow>
            (\<exists>t \<in> set df. site.truncate t = r \<and> JENIS t = sheet_name sh))
     \<and> (\<forall>t \<in> set df. \<exists>sh \<in> set wb.
            site.truncate t \<in> set (sheet_rows sh) \<and> JENIS t = sheet_name sh)
     \<and> length df
         = (\<Sum>sh\<leftarrow>wb. length (filter (\<lambda>r. latt_station r \<noteq> None \<and> long_station r \<noteq> None)
                                  (sheet_rows sh)))"
proof -
  let ?df = "concat (map sheet_frame wb)"
  have 1: "load_site_metadata wb = Some ?df" using load_ok [OF assms] .
  have 2: "\<forall>t \<in> set ?df. latt_station t \<noteq> None \<and> long_station t \<noteq> None"
    unfolding set_concat_frames by (auto simp: has_coords_def assign_JENIS_def)
  have 3: "map (\<lambda>t. (JENIS t, site.truncate t)) ?df
         = concat (map (\<lambda>sh. map (\<lambda>r. (sheet_name sh, r))
                     (filter (\<lambda>r. latt_station r \<noteq> None \<and> long_station r \<noteq> None)
                        (sheet_rows sh))) wb)"
    using tagged_rows_concat_frames [of wb] by (simp add: has_coords_unfold)
  have 4: "\<forall>sh \<in> set wb. \<forall>r \<in> set (sheet_rows sh).
            latt_station r \<noteq> None \<and> long_station r \<noteq> None \<longrightarrow>
            (\<exists>t \<in> set ?df. site.truncate t = r \<and> JENIS t = sheet_name sh)"
  proof (intro ballI impI)
    fix sh r assume "sh \<in> set wb" "r \<in> set (sheet_rows sh)"
      "latt_station r \<noteq> None \<and> long_station r \<noteq> None"
    then have "assign_JENIS (sheet_name sh) r \<in> set ?df"
      unfolding set_concat_frames by (auto simp: has_coords_def)
    then show "\<exists>t \<in> set ?df. site.truncate t = r \<and> JENIS t = sheet_name sh"
      by (rule bexI [rotated]) simp
  qed
  have 5: "\<forall>t \<in> set ?df. \<exists>sh \<in> set wb.
            site.truncate t \<in> set (sheet_rows sh) \<and> JENIS t = sheet_name sh"
    unfolding set_concat_frames by auto
  have 6: "length ?df
         = (\<Sum>sh\<leftarrow>wb. length (filter (\<lambda>r. latt_station r \<noteq> None \<and> long_station r \<noteq> None)
                                  (sheet_rows sh)))"
    using length_concat_frames [of wb] by (simp add: has_coords_unfold)
  show ?thesis using 1 2 3 4 5 6 by blast
qed

text \<open>
  The loader example: the AWS row without latitude is dropped, the other two rows keep
  their ids and coordinates.
\<close>

theorem load_drops_exactly_rows_without_coordinates_witness:
  "distinct (map sheet_name ex_workbook) \<and> ex_workbook \<noteq> []
   \<and> list_all (\<lambda>sh. set required_columns \<subseteq> set (sheet_columns sh)) ex_workbook
   \<and> (\<exists>df. load_site_metadata ex_workbook = Some df
        \<and> map JENIS df = [''AWS'', ''ARG'']
        \<and> map site.truncate df = [ex_aws_1, ex_arg_1]
        \<and> map id_station df = [IdInt 1, IdInt 1]
        \<and> map latt_station df = [Some (- 2), Some 3]
        \<and> map long_station df = [Some 110, Some 98])"
proof -
  have h1: "distinct (map sheet_name ex_workbook)" by (simp add: ex_workbook_def)
  have h2: "ex_workbook \<noteq> []" by (simp add: ex_workbook_def)
  have h3: "\<forall>sh \<in> set ex_workbook. set required_columns \<subseteq> set (sheet_columns sh)"
    by (simp add: ex_workbook_def)
  obtain df where df: "load_site_metadata ex_workbook = Some df"
    "map (\<lambda>t. (JENIS t, site.truncate t)) df
       = concat (map (\<lambda>sh. map (\<lambda>r. (sheet_name sh, r))
                   (filter (\<lambda>r. latt_station r \<noteq> None \<and> long_station r \<noteq> None)
                      (sheet_rows sh))) ex_workbook)"
    using load_drops_exactly_rows_without_coordinates [OF h1 h2 h3] by blast
  have rows: "map (\<lambda>t. (JENIS t, site.truncate t)) df = [(''AWS'', ex_aws_1), (''ARG'', ex_arg_1)]"
    unfolding df(2)
    by (simp add: ex_workbook_def ex_aws_1_def ex_aws_2_def ex_arg_1_def blank_site_def)
  have j: "map JENIS df = map fst (map (\<lambda>t. (JENIS t, site.truncate t)) df)"
    by (simp add: comp_def)
  have t: "map site.truncate df = map snd (map (\<lambda>t. (JENIS t, site.truncate t)) df)"
    by (simp add: comp_def)
  have f: "map id_station df = map id_station (map site.truncate df)"
    "map latt_station df = map latt_station (map site.truncate df)"
    "map long_station df = map long_station (map site.truncate df)"
    by (simp_all add: comp_def site.truncate_def)
  have 1: "map JENIS df = [''AWS'', ''ARG'']" unfolding j rows by simp
  have 2: "map site.truncate df = [ex_aws_1, ex_arg_1]" unfolding t rows by simp
  have 3: "map id_station df = [IdInt 1, IdInt 1]"
    "map latt_station df = [Some (- 2), Some 3]"
    "map long_station df = [Some 110, Some 98]"
    unfolding f 2 by (simp_all add: ex_aws_1_def ex_arg_1_def blank_site_def)
  show ?thesis using h1 h2 h3 df(1) 1 2 3 by (simp add: list_all_iff)
qed

section \<open>The nearest station\<close>

lemma idxmin_from_least:
  "idxmin_from vs i best = Some (k, m) \<Longrightarrow>
   (\<forall>v. Some v \<in> set vs \<longrightarrow> m \<le> v) \<and> (\<forall>j b. best = Some (j, b) \<longrightarrow> m \<le> b)"
proof (induction vs i best rule: idxmin_from.induct)
  case (1 i best)
  then show ?case by simp
next
  case (2 vs i best)
  then show ?case by auto
next
  case (3 v vs i best)
  then show ?case by (fastforce split: option.splits if_splits)
qed

lemma idxmin_from_position:
  "idxmin_from vs i best = Some (k, m) \<Longrightarrow>
   best = Some (k, m) \<or> (i \<le> k \<and> k - i < length vs \<and> vs ! (k - i) = Some m)"
proof (induction vs i best rule: idxmin_from.induct)
  case (1 i best)
  then show ?case by simp
next
  case (2 vs i best)
  from 2 have "best = Some (k, m) \<or> (Suc i \<le> k \<and> k - Suc i < length vs \<and> vs ! (k - Suc i) = Some m)"
    by simp
  then show ?case
  proof
    assume "best = Some (k, m)" then show ?thesis by simp
  next
    assume a: "Suc i \<le> k \<and> k - Suc i < length vs \<and> vs ! (k - Suc i) = Some m"
    then have "k - i = Suc (k - Suc i)" by arith
    with a show ?thesis by auto
  qed
next
  case (3 v vs i best)
  let ?b = "case best of None \<Rightarrow> Some (i, v) | Some (j, m) \<Rightarrow> if v < m then Some (i, v) else Some (j, m)"
  from 3 have "?b = Some (k, m) \<or> (Suc i \<le> k \<and> k - Suc i < length vs \<and> vs ! (k - Suc i) = Some m)"
    by simp
  then show ?case
  proof
    assume "?b = Some (k, m)"
    then show ?thesis by (auto split: option.splits if_splits)
  next
    assume a: "Suc i \<le> k \<and> k - Suc i < length vs \<and> vs ! (k - Suc i) = Some m"
    then have "k - i = Suc (k - Suc i)" by arith
    with a show ?thesis by auto
  qed
qed

lemma idxmin_from_first:
  "idxmin_from vs i best = Some (k, m) \<Longrightarrow> (\<forall>j b. best = Some (j, b) \<longrightarrow> j < i) \<Longrightarrow>
   (\<forall>j<length vs. i + j < k \<longrightarrow> (\<forall>v. vs ! j = Some v \<longrightarrow> m < v))
   \<and> (\<forall>j b. best = Some (j, b) \<longrightarrow> j \<noteq> k \<longrightarrow> m < b)"
proof (induction vs i best rule: idxmin_from.induct)
  case (1 i best)
  then show ?case by simp
next
  case (2 vs i best)
  have ih: "(\<forall>j<length vs. Suc i + j < k \<longrightarrow> (\<forall>v. vs ! j = Some v \<longrightarrow> m < v))
            \<and> (\<forall>j b. best = Some (j, b) \<longrightarrow> j \<noteq> k \<longrightarrow> m < b)"
    using 2 by (simp add: less_Suc_eq)
  show ?case
  proof (intro conjI allI impI)
    fix j v assume "j < length (None # vs)" "i + j < k" "(None # vs) ! j = Some v"
    then show "m < v" using ih by (cases j) auto
  next
    fix j b assume "best = Some (j, b)" "j \<noteq> k"
    then show "m < b" using ih by blast
  qed
next
  case (3 v vs i best)
  let ?b = "case best of None \<Rightarrow> Some (i, v) | Some (j, m) \<Rightarrow> if v < m then Some (i, v) else Some (j, m)"
  have run: "idxmin_from vs (Suc i) ?b = Some (k, m)" using 3 by simp
  have bnd: "\<forall>j b. ?b = Some (j, b) \<longrightarrow> j < Suc i"
    using 3(3) by (auto split: option.splits if_splits simp: less_Suc_eq)
  have ih: "(\<forall>j<length vs. Suc i + j < k \<longrightarrow> (\<forall>v. vs ! j = Some v \<longrightarrow> m < v))
            \<and> (\<forall>j b. ?b = Some (j, b) \<longrightarrow> j \<noteq> k \<longrightarrow> m < b)"
    using 3(1) [OF run bnd] .
  have least: "\<forall>j b. ?b = Some (j, b) \<longrightarrow> m \<le> b"
    using idxmin_from_least [OF run] by blast
  show ?case
  proof (intro conjI allI impI)
    fix j w assume j: "j < length (Some v # vs)" "i + j < k" "(Some v # vs) ! j = Some w"
    show "m < w"
    proof (cases j)
      case 0
      then have w: "w = v" and ik: "i < k" using j by auto
      have "\<exists>j' b'. ?b = Some (j', b') \<and> j' \<le> i \<and> b' \<le> v"
      proof (cases best)
        case None
        then show ?thesis by simp
      next
        case (Some p)
        obtain a b where p: "p = (a, b)" by (cases p)
        have "a < i" using 3(3) Some p by simp
        then show ?thesis using Some p by (cases "v < b") auto
      qed
      then obtain j' b' where b': "?b = Some (j', b')" "j' \<le> i" "b' \<le> v" by blast
      then have "j' \<noteq> k" using ik by auto
      then have "m < b'" using ih b' by blast
      then show ?thesis using b' w by simp
    next
      case (Suc j')
      then show ?thesis using j ih by auto
    qed
  next
    fix j b assume b: "best = Some (j, b)" "j \<noteq> k"
    show "m < b"
    proof (cases "v < b")
      case True
      then have "?b = Some (i, v)" using b by simp
      then have "m \<le> v" using least by blast
      then show ?thesis using True by simp
    next
      case False
      then have "?b = Some (j, b)" using b by simp
      then show ?thesis using ih b by blast
    qed
  qed
qed

lemma idxmin_from_None:
  "idxmin_from vs i best = None \<Longrightarrow> best = None \<and> (\<forall>v \<in> set vs. v = None)"
  by (induction vs i best rule: idxmin_from.induct) (auto split: option.splits if_splits)

lemma idxmin_Inr:
  assumes "idxmin vs = Inr k"
  shows "\<exists>m. k < length vs \<and> vs ! k = Some m
           \<and> (\<forall>j<length vs. \<forall>v. vs ! j = Some v \<longrightarrow> m \<le> v)
           \<and> (\<forall>j<k. \<forall>v. vs ! j = Some v \<longrightarrow> m < v)"
proof -
  from assms obtain m where run: "idxmin_from vs 0 None = Some (k, m)"
    by (auto simp: idxmin_def split: option.splits)
  have 1: "k < length vs \<and> vs ! k = Some m" using idxmin_from_position [OF run] by simp
  have 2: "\<forall>j<length vs. \<forall>v. vs ! j = Some v \<longrightarrow> m \<le> v"
    using idxmin_from_least [OF run] by (metis nth_mem)
  have 3: "\<forall>j<k. \<forall>v. vs ! j = Some v \<longrightarrow> m < v"
  proof (intro allI impI)
    fix j v assume j: "j < k" "vs ! j = Some v"
    then have "j < length vs" using 1 by simp
    then show "m < v" using idxmin_from_first [OF run] j by simp
  qed
  show ?thesis using 1 2 3 by blast
qed

lemma idxmin_total:
  assumes "Some v \<in> set vs" shows "\<exists>k. idxmin vs = Inr k"
proof (cases "idxmin_from vs 0 None")
  case None
  then have "\<forall>v \<in> set vs. v = None" using idxmin_from_None by blast
  then show ?thesis using assms by auto
next
  case (Some a)
  then show ?thesis by (cases a) (simp add: idxmin_def)
qed

lemma dist2_Some:
  "has_coords r \<Longrightarrow> \<exists>a b. latt_station r = Some a \<and> long_station r = Some b
      \<and> dist2 lat lon r = Some ((lat - a)\<^sup>2 + (lon - b)\<^sup>2)"
  by (auto simp: has_coords_def dist2_def power2_commute)

text \<open>
  Claim C4. On a non-empty table whose rows all have coordinates (as the loader leaves
  them), \<open>nearest\<close> returns a row of the table, whatever its station type, whose squared
  distance \<open>(lat - lat\<^sub>i)\<^sup>2 + (lon - lon\<^sub>i)\<^sup>2\<close> to the click is least over the whole table,
  and every earlier row is strictly farther: ties go to the first row in table order.
  The result is a function of the table and the click alone, so equal inputs give equal
  results.
\<close>

theorem nearest_minimises_squared_distance:
  assumes "df \<noteq> []" and "\<forall>r \<in> set df. has_coords r"
  shows "\<exists>i a b. i < length df \<and> nearest df lat lon = Inr (df ! i)
      \<and> latt_station (df ! i) = Some a \<and> long_station (df ! i) = Some b
      \<and> (\<forall>j<length df. \<exists>c d. latt_station (df ! j) = Some c \<and> long_station (df ! j) = Some d
             \<and> (lat - a)\<^sup>2 + (lon - b)\<^sup>2 \<le> (lat - c)\<^sup>2 + (lon - d)\<^sup>2)
      \<and> (\<forall>j<i. \<exists>c d. latt_station (df ! j) = Some c \<and> long_station (df ! j) = Some d
             \<and> (lat - a)\<^sup>2 + (lon - b)\<^sup>2 < (lat - c)\<^sup>2 + (lon - d)\<^sup>2)"
proof -
  let ?vs = "map (dist2 lat lon) df"
  obtain r0 where r0: "r0 \<in> set df" using assms(1) by (cases df) auto
  then obtain v0 where "dist2 lat lon r0 = Some v0" using dist2_Some assms(2) by blast
  then have "Some v0 \<in> set ?vs" using r0 by force
  then obtain i where i: "idxmin ?vs = Inr i" using idxmin_total by blast
  from idxmin_Inr [OF i] obtain m where m: "i < length df" "dist2 lat lon (df ! i) = Some m"
    "\<forall>j<length df. \<forall>v. dist2 lat lon (df ! j) = Some v \<longrightarrow> m \<le> v"
    "\<forall>j<i. \<forall>v. dist2 lat lon (df ! j) = Some v \<longrightarrow> m < v"
    by auto
  have coords: "\<And>j. j < length df \<Longrightarrow> \<exists>c d. latt_station (df ! j) = Some c
       \<and> long_station (df ! j) = Some d
       \<and> dist2 lat lon (df ! j) = Some ((lat - c)\<^sup>2 + (lon - d)\<^sup>2)"
    using dist2_Some assms(2) by (metis nth_mem)
  obtain a b where ab: "latt_station (df ! i) = Some a" "long_station (df ! i) = Some b"
    "m = (lat - a)\<^sup>2 + (lon - b)\<^sup>2"
    using coords [OF m(1)] m(2) by auto
  have near: "nearest df lat lon = Inr (df ! i)" using i by (simp add: nearest_def)
  have least: "\<forall>j<length df. \<exists>c d. latt_station (df ! j) = Some c \<and> long_station (df ! j) = Some d
             \<and> (lat - a)\<^sup>2 + (lon - b)\<^sup>2 \<le> (lat - c)\<^sup>2 + (lon - d)\<^sup>2"
  proof (intro allI impI)
    fix j assume j: "j < length df"
    from coords [OF j] obtain c d where cd: "latt_station (df ! j) = Some c"
      "long_station (df ! j) = Some d"
      "dist2 lat lon (df ! j) = Some ((lat - c)\<^sup>2 + (lon - d)\<^sup>2)" by blast
    then have "m \<le> (lat - c)\<^sup>2 + (lon - d)\<^sup>2" using m(3) j by blast
    then show "\<exists>c d. latt_station (df ! j) = Some c \<and> long_station (df ! j) = Some d
             \<and> (lat - a)\<^sup>2 + (lon - b)\<^sup>2 \<le> (lat - c)\<^sup>2 + (lon - d)\<^sup>2"
      using cd ab(3) by blast
  qed
  have first: "\<forall>j<i. \<exists>c d. latt_station (df ! j) = Some c \<and> long_station (df ! j) = Some d
             \<and> (lat - a)\<^sup>2 + (lon - b)\<^sup>2 < (lat - c)\<^sup>2 + (lon - d)\<^sup>2"
  proof (intro allI impI)
    fix j assume j: "j < i"
    then have jl: "j < length df" using m(1) by simp
    from coords [OF jl] obtain c d where cd: "latt_station (df ! j) = Some c"
      "long_station (df ! j) = Some d"
      "dist2 lat lon (df ! j) = Some ((lat - c)\<^sup>2 + (lon - d)\<^sup>2)" by blast
    then have "m < (lat - c)\<^sup>2 + (lon - d)\<^sup>2" using m(4) j by blast
    then show "\<exists>c d. latt_station (df ! j) = Some c \<and> long_station (df ! j) = Some d
             \<and> (lat - a)\<^sup>2 + (lon - b)\<^sup>2 < (lat - c)\<^sup>2 + (lon - d)\<^sup>2"
      using cd ab(3) by blast
  qed
  show ?thesis using m(1) near ab(1,2) least first by blast
qed

lemma nearest_ex_table: "nearest ex_table 1 1 = Inr (ex_table ! 0)"
  by (simp add: nearest_def idxmin_def dist2_def ex_table_def mk_station_def assign_JENIS_def
      blank_site_def power2_eq_square)

theorem nearest_minimises_squared_distance_witness:
  "ex_table \<noteq> [] \<and> list_all has_coords ex_table
   \<and> (\<exists>i<length ex_table. nearest ex_table 1 1 = Inr (ex_table ! i))
   \<and> nearest ex_table 1 1 = Inr (ex_table ! 0)"
proof -
  have h1: "ex_table \<noteq> []" by (simp add: ex_table_def)
  have h2: "\<forall>r \<in> set ex_table. has_coords r"
    by (simp add: ex_table_def mk_station_def blank_site_def has_coords_def assign_JENIS_def)
  have "\<exists>i<length ex_table. nearest ex_table 1 1 = Inr (ex_table ! i)"
    using nearest_minimises_squared_distance [OF h1 h2, of 1 1] by blast
  then show ?thesis using h1 h2 nearest_ex_table by (simp add: list_all_iff)
qed

section \<open>Lookup of the selected record, detail panel, directory\<close>

lemmas ex_defs = ex_table_def ex_numeric_def mk_station_def assign_JENIS_def blank_site_def
  idle_widgets_def new_session_def

lemma str_int_10001: "str_int 10001 = ''10001''"
  by (simp add: str_int_def str_nat.simps digit_char_def)

lemma init_new_session:
  "init_session (new_session w)
   = \<lparr> widget_values = w, selected_id_station = Some (PyStr ''10001'') \<rparr>"
  by (simp add: init_session_def new_session_def)

text \<open>
  Claim C2. The lookup of the selected record compares the raw id column with the
  selected string and takes the first hit with \<^verbatim>\<open>.iloc[0]\<close>. On a table whose only record
  has the numeric id 10001, the dropdown yields the string \<^verbatim>\<open>"10001"\<close>, the lookup on
  string forms that the claim describes finds the record, and the code's lookup finds
  nothing and raises IndexError, which ends the run.
\<close>

theorem lookup_selected_numeric_id_raises:
  "byId_spec ex_numeric ''AWS'' ''10001'' = Some (ex_numeric ! 0)
   \<and> lookup_selected ex_numeric (Some ''10001'') = Inl IndexError
   \<and> main (Some ex_numeric) (new_session idle_widgets)
       = (\<lparr> widget_values = idle_widgets, selected_id_station = Some (PyStr ''10001'') \<rparr>,
          Raised IndexError)"
proof -
  let ?st = "\<lparr> widget_values = idle_widgets, selected_id_station = Some (PyStr ''10001'') \<rparr>"
  have 1: "byId_spec ex_numeric ''AWS'' ''10001'' = Some (ex_numeric ! 0)"
    by (simp add: byId_spec_def get_filtered_data_def id_station_str_def ex_defs str_int_10001)
  have 2: "lookup_selected ex_numeric (Some ''10001'') = Inl IndexError"
    by (simp add: lookup_selected_def index0_def ex_defs)
  have 3: "sidebar_block ex_numeric (Some ''AWS'') ?st = (?st, Done (Some ''10001''))"
    by (simp add: sidebar_block_def get_filtered_data_def default_index_def selectbox_def
        display_def id_station_str_def index0_def ex_defs str_int_10001)
  have 4: "active_type ex_numeric ?st = Some ''AWS''"
    by (simp add: active_type_def radio_def station_types_def unique_def ex_defs)
  have 5: "click_block ex_numeric ?st = (?st, Done ())"
    by (simp add: click_block_def idle_widgets_def)
  have "main (Some ex_numeric) (new_session idle_widgets) = (?st, Raised IndexError)"
    by (simp add: main_def init_new_session 4 3 5 2)
  then show ?thesis using 1 2 by simp
qed

text \<open>
  Claim C3. The detail panel formats the installation date with no test for a missing
  value. For the first record of the example table, which has no date, the panel raises
  ValueError and the run ends there, while the map popup prints \<^verbatim>\<open>N/A\<close> for the same
  record.
\<close>

theorem detail_panel_raises_on_missing_install_date:
  "tgl_pasang (ex_table ! 0) = None
   \<and> render_detail (ex_table ! 0) = Inl ValueError
   \<and> popup_install_date (ex_table ! 0) = ''N/A''
   \<and> main (Some ex_table) (new_session idle_widgets)
       = (\<lparr> widget_values = idle_widgets, selected_id_station = Some (PyStr ''10001'') \<rparr>,
          Raised ValueError)"
proof -
  let ?st = "\<lparr> widget_values = idle_widgets, selected_id_station = Some (PyStr ''10001'') \<rparr>"
  have 1: "tgl_pasang (ex_table ! 0) = None" by (simp add: ex_defs)
  have 2: "render_detail (ex_table ! 0) = Inl ValueError"
    by (simp add: render_detail_def 1)
  have 3: "popup_install_date (ex_table ! 0) = ''N/A''"
    by (simp add: popup_install_date_def 1)
  have 4: "active_type ex_table ?st = Some ''AWS''"
    by (simp add: active_type_def radio_def station_types_def unique_def ex_defs)
  have 5: "sidebar_block ex_table (Some ''AWS'') ?st = (?st, Done (Some ''10001''))"
    by (simp add: sidebar_block_def get_filtered_data_def default_index_def selectbox_def
        display_def id_station_str_def index0_def ex_defs)
  have 6: "click_block ex_table ?st = (?st, Done ())"
    by (simp add: click_block_def idle_widgets_def)
  have 7: "lookup_selected ex_table (Some ''10001'') = Inr (ex_table ! 0)"
    by (simp add: lookup_selected_def index0_def ex_defs)
  have "main (Some ex_table) (new_session idle_widgets) = (?st, Raised ValueError)"
    by (simp add: main_def init_new_session 4 5 6 7 2)
  then show ?thesis using 1 2 3 by simp
qed

text \<open>
  With a search term, \<^verbatim>\<open>search_df\<close> is a new frame and the loaded frame stays as it was.
\<close>

lemma directory_with_term_keeps_loaded_frame:
  assumes "directory h df t = Some (h', s)" and "t \<noteq> []" and "df < length h"
  shows "h' ! df = h ! df \<and> s = length h"
proof -
  from assms(1,2) obtain p where p: "re_compile t = Some p"
    by (auto simp: directory_def split: option.splits)
  let ?f = "mask_frame (search_mask p) (h ! df)"
  have "h' = (h @ [?f])[length h := set_column ''tgl_pasang_str''
                 (tgl_pasang_str ((h @ [?f]) ! length h)) ((h @ [?f]) ! length h)]"
    and s: "s = length h"
    using assms(1,2) p by (auto simp: directory_def alloc_def)
  then show ?thesis using assms(3) by (simp add: nth_append)
qed

text \<open>
  Claim C6. With the empty search term \<^verbatim>\<open>search_df\<close> is the loaded frame itself, and
  the assignment of the column \<^verbatim>\<open>tgl_pasang_str\<close> changes the loaded frame: after the
  directory step the frame at the address of the loaded table has one column more than
  before.
\<close>

theorem directory_with_empty_term_changes_loaded_frame:
  "directory [ex_frame] 0 []
     = Some ([ex_frame\<lparr>frame_added := [(''tgl_pasang_str'', [None, None, None])]\<rparr>], 0)
   \<and> ex_frame\<lparr>frame_added := [(''tgl_pasang_str'', [None, None, None])]\<rparr> \<noteq> ex_frame"
  by (simp add: directory_def set_column_def tgl_pasang_str_def ex_frame_def ex_defs)

section \<open>Display names and the first token\<close>

lemma split_tokens_not_Nil: "split_tokens sep s \<noteq> []"
  by (induction sep s rule: split_tokens.induct) (auto split: list.splits)

lemma first_token_find:
  "sep \<noteq> [] \<Longrightarrow>
   index0 (split_tokens sep s) = Inr (case str_find sep s of None \<Rightarrow> s | Some k \<Rightarrow> take k s)"
proof (induction s)
  case Nil
  then show ?case by (simp add: index0_def)
next
  case (Cons c cs)
  show ?case
  proof (cases "prefix sep (c # cs)")
    case True
    then show ?thesis using Cons.prems by (simp add: index0_def)
  next
    case False
    obtain t ts where t: "split_tokens sep cs = t # ts"
      using split_tokens_not_Nil by (cases "split_tokens sep cs") auto
    then have "t = (case str_find sep cs of None \<Rightarrow> cs | Some k \<Rightarrow> take k cs)"
      using Cons by (simp add: index0_def)
    then show ?thesis using False t
      by (cases "str_find sep cs") (simp_all add: index0_def)
  qed
qed

lemma str_find_sep_here: "str_find sep (sep @ b) = Some 0"
proof (cases "sep @ b")
  case Nil
  then show ?thesis by simp
next
  case (Cons c cs)
  have "prefix sep (c # cs)" using Cons by (metis prefixI)
  then have "str_find sep (c # cs) = Some 0" by simp
  then show ?thesis using Cons by simp
qed

lemma str_find_within: "\<exists>k\<le>length a. str_find sep (a @ sep @ b) = Some k"
proof (induction a)
  case Nil
  then show ?case by (simp add: str_find_sep_here)
next
  case (Cons c a)
  then show ?case by auto
qed

lemma first_token_round_trip_iff:
  assumes "sep \<noteq> []"
  shows "index0 (split_tokens sep (a @ sep @ b)) = Inr a
         \<longleftrightarrow> str_find sep (a @ sep @ b) = Some (length a)"
proof -
  obtain k where k: "k \<le> length a" "str_find sep (a @ sep @ b) = Some k"
    using str_find_within by blast
  have "take k a = a \<longleftrightarrow> k = length a" using k(1)
    by (metis length_take min.absorb2 take_all order_refl)
  then show ?thesis using k by (simp add: first_token_find [OF assms])
qed

lemma no_space_find:
  "CHR '' '' \<notin> set a \<Longrightarrow> str_find '' - '' (a @ '' - '' @ b) = Some (length a)"
  by (induction a) auto

lemma digit_char_in: "d < 10 \<Longrightarrow> digit_char d \<in> set ''0123456789''"
  unfolding digit_char_def by (rule nth_mem) simp

lemma str_nat_digits: "set (str_nat n) \<subseteq> set ''0123456789''"
proof (induction n rule: str_nat.induct)
  case (1 n)
  show ?case
  proof (cases "n < 10")
    case True
    then show ?thesis using digit_char_in [of n] by (subst str_nat.simps) simp
  next
    case False
    have "digit_char (n mod 10) \<in> set ''0123456789''" by (rule digit_char_in) simp
    then show ?thesis using False 1 by (subst str_nat.simps) simp
  qed
qed

lemma str_int_no_space: "CHR '' '' \<notin> set (str_int i)"
  using str_nat_digits [of "nat i"] str_nat_digits [of "nat (- i)"]
  by (auto simp: str_int_def)

lemma numeric_id_round_trips:
  "id_station r = IdInt i \<Longrightarrow> name_station r = Some n \<Longrightarrow> display_round_trips r"
  using no_space_find [of "str_int i" n] str_int_no_space [of i]
  by (simp add: display_round_trips_def id_station_str_def)

lemma round_trips_first_token:
  "display_round_trips r \<Longrightarrow>
   \<exists>n. display r = Some (id_station_str r @ '' - '' @ n)
      \<and> index0 (split_tokens '' - '' (id_station_str r @ '' - '' @ n)) = Inr (id_station_str r)"
proof -
  assume a: "display_round_trips r"
  then obtain n where n: "name_station r = Some n"
    "str_find '' - '' (id_station_str r @ '' - '' @ n) = Some (length (id_station_str r))"
    by (auto simp: display_round_trips_def split: option.splits)
  have "index0 (split_tokens '' - '' (id_station_str r @ '' - '' @ n)) = Inr (id_station_str r)"
    using first_token_round_trip_iff [of "'' - ''" "id_station_str r" n] n(2) by simp
  moreover have "display r = Some (id_station_str r @ '' - '' @ n)"
    using n(1) by (simp add: display_def)
  ultimately show ?thesis by blast
qed

text \<open>
  Claim C9, amended. For every record that has a name, \<open>display\<close> is the string form of
  the id, then \<^verbatim>\<open>" - "\<close>, then the name. Splitting it on \<^verbatim>\<open>" - "\<close> and taking the first
  token gives back the id string exactly when the first \<^verbatim>\<open>" - "\<close> of the display string
  is the inserted separator; this holds for every id without a space, hence for every
  numeric id.
\<close>

theorem display_name_round_trip:
  assumes "name_station r = Some n"
  shows "display r = Some (id_station_str r @ '' - '' @ n)
     \<and> (index0 (split_tokens '' - '' (id_station_str r @ '' - '' @ n)) = Inr (id_station_str r)
          \<longleftrightarrow> str_find '' - '' (id_station_str r @ '' - '' @ n)
                = Some (length (id_station_str r)))
     \<and> (CHR '' '' \<notin> set (id_station_str r) \<longrightarrow>
          index0 (split_tokens '' - '' (id_station_str r @ '' - '' @ n))
            = Inr (id_station_str r))
     \<and> (\<forall>i. id_station r = IdInt i \<longrightarrow>
          index0 (split_tokens '' - '' (id_station_str r @ '' - '' @ n))
            = Inr (id_station_str r))"
proof -
  have 1: "display r = Some (id_station_str r @ '' - '' @ n)"
    using assms by (simp add: display_def)
  have 2: "index0 (split_tokens '' - '' (id_station_str r @ '' - '' @ n)) = Inr (id_station_str r)
          \<longleftrightarrow> str_find '' - '' (id_station_str r @ '' - '' @ n)
                = Some (length (id_station_str r))"
    by (rule first_token_round_trip_iff) simp
  have 3: "CHR '' '' \<notin> set (id_station_str r) \<longrightarrow>
          index0 (split_tokens '' - '' (id_station_str r @ '' - '' @ n))
            = Inr (id_station_str r)"
    using 2 no_space_find by blast
  have 4: "\<forall>i. id_station r = IdInt i \<longrightarrow>
          index0 (split_tokens '' - '' (id_station_str r @ '' - '' @ n))
            = Inr (id_station_str r)"
  proof (intro allI impI)
    fix i assume "id_station r = IdInt i"
    then have "CHR '' '' \<notin> set (id_station_str r)"
      using str_int_no_space [of i] by (simp add: id_station_str_def)
    then show "index0 (split_tokens '' - '' (id_station_str r @ '' - '' @ n))
            = Inr (id_station_str r)" using 3 by blast
  qed
  show ?thesis using 1 2 3 4 by blast
qed

theorem display_name_round_trip_witness:
  "name_station (ex_numeric ! 0) = Some ''Alpha''
   \<and> display (ex_numeric ! 0) = Some ''10001 - Alpha''
   \<and> index0 (split_tokens '' - '' ''10001 - Alpha'') = Inr ''10001''"
proof -
  have h: "name_station (ex_numeric ! 0) = Some ''Alpha''" by (simp add: ex_defs)
  have i: "id_station_str (ex_numeric ! 0) = ''10001''"
    by (simp add: id_station_str_def ex_defs str_int_10001)
  have j: "id_station (ex_numeric ! 0) = IdInt 10001" by (simp add: ex_defs)
  show ?thesis using display_name_round_trip [OF h] h i j by simp
qed

text \<open>
  As stated for every record, the claim fails: an id that contains \<^verbatim>\<open>" - "\<close> comes back
  cut at its own separator, and a record with no name has no display string at all.
\<close>

theorem display_name_round_trip_counterexample:
  "display ex_dashed = Some ''A - 1 - Hulu''
   \<and> index0 (split_tokens '' - '' ''A - 1 - Hulu'') = Inr ''A''
   \<and> id_station_str ex_dashed = ''A - 1''
   \<and> display ex_nameless = None"
  by (simp add: display_def id_station_str_def index0_def ex_dashed_def ex_nameless_def ex_defs)

section \<open>Change of the station type\<close>

lemma first_pos_None: "first_pos P xs = None \<longleftrightarrow> (\<forall>x \<in> set xs. \<not> P x)"
  by (induction xs) auto

lemma first_pos_Some:
  "first_pos P xs = Some i \<Longrightarrow> i < length xs \<and> P (xs ! i) \<and> find P xs = Some (xs ! i)"
proof (induction xs arbitrary: i)
  case Nil
  then show ?case by simp
next
  case (Cons x xs)
  then show ?case by (cases "P x") auto
qed

lemma find_first_pos:
  "find P xs = Some r \<Longrightarrow> \<exists>i. first_pos P xs = Some i \<and> i < length xs \<and> xs ! i = r \<and> P r"
proof (induction xs)
  case Nil
  then show ?case by simp
next
  case (Cons x xs)
  then show ?case by (cases "P x") auto
qed

lemma sidebar_block_eval:
  assumes "selected_id_station st = Some v" and "get_filtered_data df t = part"
    and "part \<noteq> []"
    and "selectbox (map display part) (default_index part v) (dropdown_pick (widget_values st))
           = Inr (Some d)"
    and "index0 (split_tokens '' - '' d) = Inr sid"
  shows "sidebar_block df t st
           = (if \<not> str_eq sid v then st\<lparr>selected_id_station := Some (PyStr sid)\<rparr> else st,
              Done (Some sid))"
  using assms by (simp add: sidebar_block_def Let_def)

lemma selectbox_default:
  "i < length xs \<Longrightarrow> selectbox (map f xs) i None = Inr (f (xs ! i))"
  by (simp add: selectbox_def)

lemma sidebar_block_absent:
  assumes sel: "selected_id_station st = Some (PyStr x)"
    and pick: "dropdown_pick (widget_values st) = None"
    and part: "get_filtered_data df (Some b) = r0 # rest"
    and absent: "\<forall>r \<in> set (r0 # rest). id_station_str r \<noteq> x"
    and rt: "display_round_trips r0"
  shows "sidebar_block df (Some b) st
           = (st\<lparr>selected_id_station := Some (PyStr (id_station_str r0))\<rparr>,
              Done (Some (id_station_str r0)))"
proof -
  define part where "part = r0 # rest"
  have ne: "part \<noteq> []" and p0: "part ! 0 = r0" and len: "0 < length part"
    by (simp_all add: part_def)
  have "first_pos (\<lambda>r. str_eq (id_station_str r) (PyStr x)) part = None"
    using absent by (simp add: first_pos_None part_def)
  then have di: "default_index part (PyStr x) = 0" by (simp add: default_index_def)
  obtain n where n: "display r0 = Some (id_station_str r0 @ '' - '' @ n)"
    "index0 (split_tokens '' - '' (id_station_str r0 @ '' - '' @ n)) = Inr (id_station_str r0)"
    using round_trips_first_token [OF rt] by blast
  have sb: "selectbox (map display part) (default_index part (PyStr x))
              (dropdown_pick (widget_values st)) = Inr (Some (id_station_str r0 @ '' - '' @ n))"
    using selectbox_default [OF len, of display] by (simp only: di pick p0 n(1))
  have neq: "\<not> str_eq (id_station_str r0) (PyStr x)" using absent by simp
  show ?thesis
    using sidebar_block_eval [OF sel part [folded part_def] ne sb n(2)] neq by simp
qed

lemma sidebar_block_present:
  assumes sel: "selected_id_station st = Some (PyStr x)"
    and pick: "dropdown_pick (widget_values st) = None"
    and part: "get_filtered_data df (Some b) = r0 # rest"
    and found: "find (\<lambda>r. id_station_str r = x) (r0 # rest) = Some r"
    and rt: "display_round_trips r"
  shows "sidebar_block df (Some b) st = (st, Done (Some x))"
proof -
  define part where "part = r0 # rest"
  have ne: "part \<noteq> []" by (simp add: part_def)
  have eq: "(\<lambda>r. str_eq (id_station_str r) (PyStr x)) = (\<lambda>r. id_station_str r = x)"
    by (rule ext) simp
  obtain i where i: "first_pos (\<lambda>r. id_station_str r = x) part = Some i"
    "i < length part" "part ! i = r" "id_station_str r = x"
    using find_first_pos [OF found] unfolding part_def by blast
  have di: "default_index part (PyStr x) = i"
    using i(1) by (simp add: default_index_def eq)
  obtain n where n: "display r = Some (x @ '' - '' @ n)"
    "index0 (split_tokens '' - '' (x @ '' - '' @ n)) = Inr x"
    using round_trips_first_token [OF rt] i(4) by auto
  have sb: "selectbox (map display part) (default_index part (PyStr x))
              (dropdown_pick (widget_values st)) = Inr (Some (x @ '' - '' @ n))"
    using selectbox_default [OF i(2), of display] by (simp only: di pick i(3) n(1))
  show ?thesis
    using sidebar_block_eval [OF sel part [folded part_def] ne sb n(2)] by simp
qed

section \<open>The selection over a session\<close>

lemma is_set_strI [simp]: "is_set_str (Some (PyStr s))"
  by (simp add: is_set_str_def)

lemma is_set_str_iff: "is_set_str v \<longleftrightarrow> (\<exists>s. v = Some (PyStr s))"
proof (cases v)
  case None
  then show ?thesis by (simp add: is_set_str_def)
next
  case (Some x)
  then show ?thesis by (cases x) (simp_all add: is_set_str_def)
qed

lemma init_session_widgets [simp]: "widget_values (init_session st) = widget_values st"
  by (simp add: init_session_def split: option.splits)

lemma init_session_str:
  "str_or_unset (selected_id_station st) \<Longrightarrow> is_set_str (selected_id_station (init_session st))"
  by (auto simp: init_session_def str_or_unset_def is_set_str_def split: option.splits)

lemma sidebar_block_widgets [simp]:
  "widget_values (fst (sidebar_block df t st)) = widget_values st"
  by (simp add: sidebar_block_def Let_def split: option.splits sum.splits)

lemma sidebar_block_str:
  "is_set_str (selected_id_station st) \<Longrightarrow>
   is_set_str (selected_id_station (fst (sidebar_block df t st)))"
  by (auto simp: sidebar_block_def Let_def split: option.splits sum.splits)

lemma click_block_widgets [simp]:
  "widget_values (fst (click_block df st)) = widget_values st"
  by (simp add: click_block_def split: option.splits sum.splits prod.splits)

lemma click_block_str:
  "is_set_str (selected_id_station st) \<Longrightarrow>
   is_set_str (selected_id_station (fst (click_block df st)))"
  by (simp add: click_block_def split: option.splits sum.splits prod.splits)

lemma click_block_no_button:
  "\<not> use_button (widget_values st) \<Longrightarrow> fst (click_block df st) = st"
  by (simp add: click_block_def split: option.splits sum.splits prod.splits)

lemma click_block_confirm:
  "use_button (widget_values st) \<Longrightarrow> last_object_clicked (widget_values st) = Some (lat, lon) \<Longrightarrow>
   nearest df lat lon = Inr r \<Longrightarrow>
   click_block df st = (st\<lparr>selected_id_station := Some (PyStr (py_str (id_station r)))\<rparr>, Rerun)"
  by (simp add: click_block_def)

text \<open>The session after a run of the script, block by block.\<close>

lemma main_fst:
  "fst (main (Some df) st) =
     (case sidebar_block df (active_type df (init_session st)) (init_session st) of
        (st2, Done selected) \<Rightarrow> fst (click_block df st2)
      | (st2, out) \<Rightarrow> st2)"
  by (simp add: main_def Let_def split: prod.splits outcome.splits sum.splits)

lemma main_widgets [simp]: "widget_values (fst (main loaded st)) = widget_values st"
proof (cases loaded)
  case None
  then show ?thesis by (simp add: main_def)
next
  case (Some df)
  obtain st2 out where sb:
    "sidebar_block df (active_type df (init_session st)) (init_session st) = (st2, out)"
    by (cases "sidebar_block df (active_type df (init_session st)) (init_session st)")
  have "widget_values st2 = widget_values st"
    using sidebar_block_widgets [of df "active_type df (init_session st)" "init_session st"] sb
    by simp
  then show ?thesis using Some sb by (cases out) (simp_all add: main_fst)
qed

lemma main_str:
  assumes "str_or_unset (selected_id_station st)"
  shows "is_set_str (selected_id_station (fst (main (Some df) st)))"
proof -
  obtain st2 out where sb:
    "sidebar_block df (active_type df (init_session st)) (init_session st) = (st2, out)"
    by (cases "sidebar_block df (active_type df (init_session st)) (init_session st)")
  have "is_set_str (selected_id_station st2)"
    using sidebar_block_str [OF init_session_str [OF assms], of df "active_type df (init_session st)"] sb
    by simp
  then show ?thesis using sb click_block_str by (cases out) (simp_all add: main_fst)
qed

lemma is_set_str_imp: "is_set_str v \<Longrightarrow> str_or_unset v"
  by (simp add: is_set_str_def str_or_unset_def split: option.splits)

lemma main_str_or_unset:
  "str_or_unset (selected_id_station st) \<Longrightarrow>
   str_or_unset (selected_id_station (fst (main loaded st)))"
proof (cases loaded)
  case None
  assume "str_or_unset (selected_id_station st)"
  then show ?thesis using None by (simp add: main_def)
next
  case (Some df)
  assume "str_or_unset (selected_id_station st)"
  then show ?thesis using Some main_str is_set_str_imp by blast
qed

lemma interact_fst:
  "interact loaded st w =
     (case main loaded (st\<lparr>widget_values := w\<rparr>) of
        (st1, Rerun) \<Rightarrow> fst (main loaded (st1\<lparr>widget_values := w\<lparr>use_button := False\<rparr>\<rparr>))
      | (st1, out) \<Rightarrow> st1)"
  by (simp add: interact_def)

lemma interact_str_or_unset:
  assumes "str_or_unset (selected_id_station st)"
  shows "str_or_unset (selected_id_station (interact loaded st w))"
proof -
  obtain st1 out where m: "main loaded (st\<lparr>widget_values := w\<rparr>) = (st1, out)"
    by (cases "main loaded (st\<lparr>widget_values := w\<rparr>)")
  have 1: "str_or_unset (selected_id_station st1)"
    using main_str_or_unset [of "st\<lparr>widget_values := w\<rparr>" loaded] assms m by simp
  then have 2: "str_or_unset (selected_id_station
      (fst (main loaded (st1\<lparr>widget_values := w\<lparr>use_button := False\<rparr>\<rparr>))))"
    using main_str_or_unset [of "st1\<lparr>widget_values := w\<lparr>use_button := False\<rparr>\<rparr>" loaded] by simp
  show ?thesis using m 1 2 by (cases out) (simp_all add: interact_def)
qed

lemma interact_str:
  assumes "str_or_unset (selected_id_station st)"
  shows "is_set_str (selected_id_station (interact (Some df) st w))"
proof -
  obtain st1 out where m: "main (Some df) (st\<lparr>widget_values := w\<rparr>) = (st1, out)"
    by (cases "main (Some df) (st\<lparr>widget_values := w\<rparr>)")
  have 1: "is_set_str (selected_id_station st1)"
    using main_str [of "st\<lparr>widget_values := w\<rparr>" df] assms m by simp
  then have 2: "is_set_str (selected_id_station
      (fst (main (Some df) (st1\<lparr>widget_values := w\<lparr>use_button := False\<rparr>\<rparr>))))"
    using main_str [of "st1\<lparr>widget_values := w\<lparr>use_button := False\<rparr>\<rparr>" df] is_set_str_imp
    by simp
  show ?thesis using m 1 2 by (cases out) (simp_all add: interact_def)
qed

lemma session_str_or_unset:
  "str_or_unset (selected_id_station st) \<Longrightarrow>
   str_or_unset (selected_id_station (session loaded st ws))"
  by (induction ws arbitrary: st) (simp_all add: interact_str_or_unset)

lemma session_str:
  "is_set_str (selected_id_station st) \<Longrightarrow>
   is_set_str (selected_id_station (session (Some df) st ws))"
  by (induction ws arbitrary: st) (simp_all add: interact_str is_set_str_imp)

text \<open>
  Claim C10. In every session that starts with an empty session state, after any
  sequence of interactions the stored selection is a string whenever the key is set;
  when the table has loaded, it is set to a string after the first run. The first value
  is the literal \<^verbatim>\<open>"10001"\<close>; the sidebar stores the first token of a display string and
  the confirmed map click stores \<^verbatim>\<open>str\<close> of the clicked id.
\<close>

theorem selected_id_is_always_a_string:
  "str_or_unset (selected_id_station (session loaded (new_session w0) ws))
   \<and> (\<exists>s. selected_id_station (session (Some df) (new_session w0) (w # ws)) = Some (PyStr s))
   \<and> selected_id_station (init_session (new_session w0)) = Some (PyStr ''10001'')"
proof -
  have u: "str_or_unset (selected_id_station (new_session w0))"
    by (simp add: new_session_def str_or_unset_def)
  have 1: "str_or_unset (selected_id_station (session loaded (new_session w0) ws))"
    using session_str_or_unset [OF u] .
  have "is_set_str (selected_id_station (interact (Some df) (new_session w0) w))"
    using interact_str [OF u] .
  then have "is_set_str (selected_id_station (session (Some df) (new_session w0) (w # ws)))"
    using session_str by simp
  then have 2: "\<exists>s. selected_id_station (session (Some df) (new_session w0) (w # ws))
                  = Some (PyStr s)"
    by (simp add: is_set_str_iff)
  show ?thesis using 1 2 by (simp add: init_new_session)
qed

theorem selected_id_is_always_a_string_witness:
  "str_or_unset (selected_id_station
     (session (Some ex_table) (new_session idle_widgets) [ex_click_widgets, idle_widgets]))
   \<and> selected_id_station (session None (new_session idle_widgets) [idle_widgets]) = None"
proof -
  have "selected_id_station (session None (new_session idle_widgets) [idle_widgets]) = None"
    by (simp add: interact_def main_def new_session_def)
  then show ?thesis
    using selected_id_is_always_a_string
      [of "Some ex_table" idle_widgets "[ex_click_widgets, idle_widgets]"]
    by simp
qed

section \<open>Map clicks\<close>

lemma active_type_widgets:
  "radio_choice (widget_values st') = radio_choice (widget_values st) \<Longrightarrow>
   active_type df st' = active_type df st"
  by (simp add: active_type_def)

lemma sidebar_block_click_indep:
  "selected_id_station
     (fst (sidebar_block df t (st\<lparr>widget_values := (widget_values st)\<lparr>last_object_clicked := c\<rparr>\<rparr>)))
   = selected_id_station (fst (sidebar_block df t st))"
  by (auto simp: sidebar_block_def Let_def split: option.splits sum.splits)

lemma init_session_update_widgets:
  "init_session (st\<lparr>widget_values := w\<rparr>) = (init_session st)\<lparr>widget_values := w\<rparr>"
  by (simp add: init_session_def split: option.splits)

lemma main_sel_no_button:
  assumes "\<not> use_button (widget_values st)"
  shows "selected_id_station (fst (main (Some df) st))
         = selected_id_station
             (fst (sidebar_block df (active_type df (init_session st)) (init_session st)))"
proof -
  obtain st2 out where sb:
    "sidebar_block df (active_type df (init_session st)) (init_session st) = (st2, out)"
    by (cases "sidebar_block df (active_type df (init_session st)) (init_session st)")
  have "widget_values st2 = widget_values st"
    using sidebar_block_widgets [of df "active_type df (init_session st)" "init_session st"] sb
    by simp
  then have "fst (click_block df st2) = st2" using assms click_block_no_button by simp
  then show ?thesis using sb by (cases out) (simp_all add: main_fst)
qed

lemma main_sel_click_indep:
  assumes "\<not> use_button (widget_values st)"
  shows "selected_id_station
           (fst (main loaded (st\<lparr>widget_values := (widget_values st)\<lparr>last_object_clicked := c\<rparr>\<rparr>)))
         = selected_id_station (fst (main loaded st))"
proof (cases loaded)
  case None
  then show ?thesis by (simp add: main_def)
next
  case (Some df)
  let ?w = "(widget_values st)\<lparr>last_object_clicked := c\<rparr>"
  let ?st = "st\<lparr>widget_values := ?w\<rparr>"
  let ?i = "init_session st"
  have nb: "\<not> use_button (widget_values ?st)" using assms by simp
  have at: "active_type df (init_session ?st) = active_type df ?i"
    by (rule active_type_widgets) simp
  have i: "init_session ?st = ?i\<lparr>widget_values := (widget_values ?i)\<lparr>last_object_clicked := c\<rparr>\<rparr>"
    by (simp add: init_session_update_widgets)
  have "selected_id_station (fst (main (Some df) ?st))
        = selected_id_station (fst (sidebar_block df (active_type df ?i) (init_session ?st)))"
    using main_sel_no_button [OF nb, of df] at by simp
  also have "\<dots> = selected_id_station (fst (sidebar_block df (active_type df ?i) ?i))"
    unfolding i by (rule sidebar_block_click_indep)
  also have "\<dots> = selected_id_station (fst (main (Some df) st))"
    using main_sel_no_button [OF assms, of df] by simp
  finally show ?thesis using Some by simp
qed

lemma interact_radio: "radio_choice (widget_values (interact loaded st w)) = radio_choice w"
proof -
  obtain st1 out where m: "main loaded (st\<lparr>widget_values := w\<rparr>) = (st1, out)"
    by (cases "main loaded (st\<lparr>widget_values := w\<rparr>)")
  have "widget_values st1 = w"
    using main_widgets [of loaded "st\<lparr>widget_values := w\<rparr>"] m by simp
  then show ?thesis using m by (cases out) (simp_all add: interact_def)
qed

text \<open>
  Claim C7. When the button is not pressed, the map-click block leaves the session as
  it is, whatever was clicked, and the selection after the whole run is the one the run
  would give without the click. The script never writes a widget: the station type held
  by the radio is the same after the click block, after the run, and after an
  interaction that confirms a candidate and reruns, also when the candidate is of another
  type.
\<close>

theorem spatial_pick_needs_confirmation:
  "(\<not> use_button (widget_values st) \<longrightarrow> fst (click_block df st) = st)
   \<and> (\<not> use_button (widget_values st) \<longrightarrow>
        selected_id_station
          (fst (main loaded (st\<lparr>widget_values := (widget_values st)\<lparr>last_object_clicked := c\<rparr>\<rparr>)))
        = selected_id_station (fst (main loaded st)))
   \<and> active_type df (fst (click_block df st)) = active_type df st
   \<and> active_type df (fst (main loaded st)) = active_type df st
   \<and> radio_choice (widget_values (interact loaded st w)) = radio_choice w"
proof -
  have 3: "active_type df (fst (click_block df st)) = active_type df st"
    by (rule active_type_widgets) simp
  have 4: "active_type df (fst (main loaded st)) = active_type df st"
    by (rule active_type_widgets) simp
  show ?thesis
    using click_block_no_button main_sel_click_indep 3 4 interact_radio by blast
qed

theorem spatial_pick_needs_confirmation_witness:
  "nearest ex_table 0 3 = Inr (ex_table ! 2)
   \<and> click_block ex_table
        \<lparr> widget_values = ex_click_widgets, selected_id_station = Some (PyStr ''10001'') \<rparr>
      = (\<lparr> widget_values = ex_click_widgets, selected_id_station = Some (PyStr ''10001'') \<rparr>,
         Done ())
   \<and> click_block ex_table
        \<lparr> widget_values = ex_press_widgets, selected_id_station = Some (PyStr ''10001'') \<rparr>
      = (\<lparr> widget_values = ex_press_widgets, selected_id_station = Some (PyStr ''20001'') \<rparr>,
         Rerun)
   \<and> active_type ex_table
        \<lparr> widget_values = ex_press_widgets, selected_id_station = Some (PyStr ''20001'') \<rparr>
      = Some ''AWS''"
proof -
  let ?st = "\<lparr> widget_values = ex_click_widgets, selected_id_station = Some (PyStr ''10001'') \<rparr>"
  let ?sp = "\<lparr> widget_values = ex_press_widgets, selected_id_station = Some (PyStr ''10001'') \<rparr>"
  have n: "nearest ex_table 0 3 = Inr (ex_table ! 2)"
    by (simp add: nearest_def idxmin_def dist2_def ex_defs power2_eq_square)
  have nb: "\<not> use_button (widget_values ?st)"
    by (simp add: ex_click_widgets_def idle_widgets_def)
  have "fst (click_block ex_table ?st) = ?st"
    using spatial_pick_needs_confirmation [of ?st ex_table] nb by blast
  moreover have "snd (click_block ex_table ?st) = Done ()"
    by (simp add: click_block_def ex_click_widgets_def idle_widgets_def n)
  ultimately have 1: "click_block ex_table ?st = (?st, Done ())"
    by (metis prod.collapse)
  have 2: "click_block ex_table ?sp
      = (\<lparr> widget_values = ex_press_widgets, selected_id_station = Some (PyStr ''20001'') \<rparr>,
         Rerun)"
    by (simp add: click_block_def ex_press_widgets_def ex_click_widgets_def idle_widgets_def n)
       (simp add: ex_defs)
  have 3: "active_type ex_table
        \<lparr> widget_values = ex_press_widgets, selected_id_station = Some (PyStr ''20001'') \<rparr>
      = Some ''AWS''"
    by (simp add: active_type_def radio_def station_types_def unique_def ex_defs
        ex_press_widgets_def ex_click_widgets_def)
  show ?thesis using n 1 2 3 by simp
qed

text \<open>
  What the rerun after a confirmation does is a separate matter: when the confirmed
  station is of another type than the one the radio holds, the sidebar of the rerun
  finds its id absent from the partition and stores the dropdown's id again.
\<close>

lemma confirmed_pick_of_other_type_is_reset_by_rerun:
  "selected_id_station
     (interact (Some ex_table)
        \<lparr> widget_values = idle_widgets, selected_id_station = Some (PyStr ''10001'') \<rparr>
        ex_press_widgets)
   = Some (PyStr ''10001'')"
proof -
  let ?sp = "\<lparr> widget_values = ex_press_widgets, selected_id_station = Some (PyStr ''10001'') \<rparr>"
  let ?sc = "\<lparr> widget_values = ex_press_widgets, selected_id_station = Some (PyStr ''20001'') \<rparr>"
  let ?w = "ex_press_widgets\<lparr>use_button := False\<rparr>"
  let ?sr = "\<lparr> widget_values = ?w, selected_id_station = Some (PyStr ''20001'') \<rparr>"
  let ?sf = "\<lparr> widget_values = ?w, selected_id_station = Some (PyStr ''10001'') \<rparr>"
  have n: "nearest ex_table 0 3 = Inr (ex_table ! 2)"
    by (simp add: nearest_def idxmin_def dist2_def ex_defs power2_eq_square)
  have a1: "active_type ex_table ?sp = Some ''AWS''"
    by (simp add: active_type_def radio_def station_types_def unique_def ex_defs
        ex_press_widgets_def ex_click_widgets_def)
  have s1: "sidebar_block ex_table (Some ''AWS'') ?sp = (?sp, Done (Some ''10001''))"
    by (simp add: sidebar_block_def get_filtered_data_def default_index_def selectbox_def
        display_def id_station_str_def index0_def ex_defs ex_press_widgets_def
        ex_click_widgets_def)
  have c1: "click_block ex_table ?sp = (?sc, Rerun)"
    by (simp add: click_block_def ex_press_widgets_def ex_click_widgets_def idle_widgets_def n)
       (simp add: ex_defs)
  have m1: "main (Some ex_table) ?sp = (?sc, Rerun)"
    by (simp add: main_def init_session_def a1 s1 c1)
  have a2: "active_type ex_table ?sr = Some ''AWS''"
    by (simp add: active_type_def radio_def station_types_def unique_def ex_defs
        ex_press_widgets_def ex_click_widgets_def)
  have s2: "sidebar_block ex_table (Some ''AWS'') ?sr = (?sf, Done (Some ''10001''))"
    by (simp add: sidebar_block_def get_filtered_data_def default_index_def selectbox_def
        display_def id_station_str_def index0_def ex_defs ex_press_widgets_def
        ex_click_widgets_def)
  have "fst (main (Some ex_table) ?sr) = fst (click_block ex_table ?sf)"
    by (simp add: main_fst init_session_def a2 s2)
  also have "\<dots> = ?sf" by (rule click_block_no_button) simp
  finally have m2: "fst (main (Some ex_table) ?sr) = ?sf" .
  show ?thesis by (simp add: interact_def m1 m2)
qed

section \<open>The run after a change of the station type\<close>

lemma get_filtered_data_Some:
  "get_filtered_data df (Some b) = filter (\<lambda>r. JENIS r = b) df"
  by (simp add: get_filtered_data_def)

lemma init_session_set:
  "selected_id_station st = Some v \<Longrightarrow> init_session st = st"
  by (simp add: init_session_def)

lemma main_sel_after_sidebar:
  assumes "selected_id_station st = Some v" and "\<not> use_button (widget_values st)"
    and "active_type df st = Some b"
  shows "selected_id_station (fst (main (Some df) st))
         = selected_id_station (fst (sidebar_block df (Some b) st))"
  using main_sel_no_button [OF assms(2), of df] assms(1,3) by (simp add: init_session_set)

text \<open>
  Claim C5, amended. The script runs with the selection \<open>x\<close> in the session state, the
  radio on the type \<open>b\<close>, no pick yet in the dropdown of the new type and the button not
  pressed; the rows of type \<open>b\<close>, in table order, start with \<open>r0\<close>. If no row of type \<open>b\<close>
  has the id string \<open>x\<close>, the sidebar step completes and the selection stored in the session
  after the run is the id string of \<open>r0\<close>, provided the display string of \<open>r0\<close> round-trips
  (it has a name, and the first \<^verbatim>\<open>" - "\<close> in it is the inserted separator). If a row of type
  \<open>b\<close> has the id string \<open>x\<close> and the first such row round-trips, the sidebar step completes
  and the stored selection stays \<open>x\<close>. What the run does after the sidebar step (the lookup
  of the selected record, the detail panel) is not part of the statement.
\<close>

theorem type_change_resets_selection:
  assumes "selected_id_station st = Some (PyStr x)"
    and "dropdown_pick (widget_values st) = None"
    and "\<not> use_button (widget_values st)"
    and "active_type df st = Some b"
    and "filter (\<lambda>r. JENIS r = b) df = r0 # rest"
  shows "((\<forall>r \<in> set (r0 # rest). id_station_str r \<noteq> x) \<longrightarrow> display_round_trips r0 \<longrightarrow>
            sidebar_block df (Some b) st
              = (st\<lparr>selected_id_station := Some (PyStr (id_station_str r0))\<rparr>,
                 Done (Some (id_station_str r0)))
            \<and> selected_id_station (fst (main (Some df) st))
                = Some (PyStr (id_station_str r0)))
       \<and> (\<forall>r. find (\<lambda>r. id_station_str r = x) (r0 # rest) = Some r \<longrightarrow>
            display_round_trips r \<longrightarrow>
            sidebar_block df (Some b) st = (st, Done (Some x))
            \<and> selected_id_station (fst (main (Some df) st)) = Some (PyStr x))"
proof -
  have part: "get_filtered_data df (Some b) = r0 # rest"
    using assms(5) by (simp add: get_filtered_data_Some)
  have m: "selected_id_station (fst (main (Some df) st))
           = selected_id_station (fst (sidebar_block df (Some b) st))"
    using main_sel_after_sidebar [OF assms(1,3,4)] .
  have 1: "(\<forall>r \<in> set (r0 # rest). id_station_str r \<noteq> x) \<longrightarrow> display_round_trips r0 \<longrightarrow>
            sidebar_block df (Some b) st
              = (st\<lparr>selected_id_station := Some (PyStr (id_station_str r0))\<rparr>,
                 Done (Some (id_station_str r0)))
            \<and> selected_id_station (fst (main (Some df) st))
                = Some (PyStr (id_station_str r0))"
  proof (intro impI)
    assume a: "\<forall>r \<in> set (r0 # rest). id_station_str r \<noteq> x" and rt: "display_round_trips r0"
    have sb: "sidebar_block df (Some b) st
              = (st\<lparr>selected_id_station := Some (PyStr (id_station_str r0))\<rparr>,
                 Done (Some (id_station_str r0)))"
      using sidebar_block_absent [OF assms(1,2) part a rt] .
    then show "sidebar_block df (Some b) st
              = (st\<lparr>selected_id_station := Some (PyStr (id_station_str r0))\<rparr>,
                 Done (Some (id_station_str r0)))
            \<and> selected_id_station (fst (main (Some df) st))
                = Some (PyStr (id_station_str r0))"
      using m by simp
  qed
  have 2: "\<forall>r. find (\<lambda>r. id_station_str r = x) (r0 # rest) = Some r \<longrightarrow>
            display_round_trips r \<longrightarrow>
            sidebar_block df (Some b) st = (st, Done (Some x))
            \<and> selected_id_station (fst (main (Some df) st)) = Some (PyStr x)"
  proof (intro allI impI)
    fix r assume f: "find (\<lambda>r. id_station_str r = x) (r0 # rest) = Some r"
      and rt: "display_round_trips r"
    have sb: "sidebar_block df (Some b) st = (st, Done (Some x))"
      using sidebar_block_present [OF assms(1,2) part f rt] .
    then show "sidebar_block df (Some b) st = (st, Done (Some x))
            \<and> selected_id_station (fst (main (Some df) st)) = Some (PyStr x)"
      using m assms(1) by simp
  qed
  show ?thesis using 1 2 by blast
qed

text \<open>
  On the dated example table: the selection \<^verbatim>\<open>10002\<close> of type AWS, the radio moved to
  ARG; the run completes and stores \<^verbatim>\<open>20001\<close>, the id of the first ARG row.
\<close>

theorem type_change_resets_selection_witness:
  "filter (\<lambda>r. JENIS r = ''ARG'') ex_dated = [ex_dated ! 2]
   \<and> id_station_str (ex_dated ! 2) = ''20001''
   \<and> active_type ex_dated
        \<lparr> widget_values = ex_arg_widgets, selected_id_station = Some (PyStr ''10002'') \<rparr>
      = Some ''ARG''
   \<and> main (Some ex_dated)
        \<lparr> widget_values = ex_arg_widgets, selected_id_station = Some (PyStr ''10002'') \<rparr>
      = (\<lparr> widget_values = ex_arg_widgets, selected_id_station = Some (PyStr ''20001'') \<rparr>,
         Done ())"
proof -
  let ?st = "\<lparr> widget_values = ex_arg_widgets, selected_id_station = Some (PyStr ''10002'') \<rparr>"
  let ?st' = "\<lparr> widget_values = ex_arg_widgets, selected_id_station = Some (PyStr ''20001'') \<rparr>"
  have h1: "selected_id_station ?st = Some (PyStr ''10002'')" by simp
  have h2: "dropdown_pick (widget_values ?st) = None"
    by (simp add: ex_arg_widgets_def idle_widgets_def)
  have h3: "\<not> use_button (widget_values ?st)"
    by (simp add: ex_arg_widgets_def idle_widgets_def)
  have h4: "active_type ex_dated ?st = Some ''ARG''"
    by (simp add: active_type_def radio_def station_types_def unique_def ex_dated_def ex_defs
        ex_arg_widgets_def)
  have h5: "filter (\<lambda>r. JENIS r = ''ARG'') ex_dated = ex_dated ! 2 # []"
    by (simp add: ex_dated_def ex_defs)
  have i: "id_station_str (ex_dated ! 2) = ''20001''"
    by (simp add: id_station_str_def ex_dated_def ex_defs)
  have h6: "\<forall>r \<in> set (ex_dated ! 2 # []). id_station_str r \<noteq> ''10002''"
    using i by simp
  have h7: "display_round_trips (ex_dated ! 2)"
    by (simp add: display_round_trips_def id_station_str_def ex_dated_def ex_defs)
  have sb: "sidebar_block ex_dated (Some ''ARG'') ?st = (?st', Done (Some ''20001''))"
    and sel: "selected_id_station (fst (main (Some ex_dated) ?st)) = Some (PyStr ''20001'')"
    using type_change_resets_selection [OF h1 h2 h3 h4 h5] h6 h7 i by simp_all
  have cb: "click_block ex_dated ?st' = (?st', Done ())"
    by (simp add: click_block_def ex_arg_widgets_def idle_widgets_def)
  have lk: "lookup_selected ex_dated (Some ''20001'') = Inr (ex_dated ! 2)"
    by (simp add: lookup_selected_def index0_def ex_dated_def ex_defs)
  have rd: "\<exists>p. render_detail (ex_dated ! 2) = Inr p"
    by (simp add: render_detail_def Let_def ex_dated_def ex_defs)
  have "main (Some ex_dated) ?st = (?st', Done ())"
    using rd by (auto simp: main_def init_session_def h4 sb cb lk)
  then show ?thesis using h4 h5 i by simp
qed

text \<open>
  As stated for every table, the claim fails: when the first row of the new type has the
  id \<^verbatim>\<open>A - 1\<close> the stored selection becomes \<^verbatim>\<open>A\<close>, and when it has no name the sidebar
  step raises AttributeError and the selection keeps the old id.
\<close>

theorem type_change_resets_selection_counterexample:
  "filter (\<lambda>r. JENIS r = ''ARG'') ex_cross = [ex_dashed]
   \<and> id_station_str ex_dashed = ''A - 1''
   \<and> sidebar_block ex_cross (Some ''ARG'')
       \<lparr> widget_values = ex_arg_widgets, selected_id_station = Some (PyStr ''10001'') \<rparr>
     = (\<lparr> widget_values = ex_arg_widgets, selected_id_station = Some (PyStr ''A'') \<rparr>,
        Done (Some ''A''))
   \<and> selected_id_station
       (fst (main (Some ex_cross)
          \<lparr> widget_values = ex_arg_widgets, selected_id_station = Some (PyStr ''10001'') \<rparr>))
     = Some (PyStr ''A'')
   \<and> sidebar_block ex_cross_nameless (Some ''ARG'')
       \<lparr> widget_values = ex_arg_widgets, selected_id_station = Some (PyStr ''10001'') \<rparr>
     = (\<lparr> widget_values = ex_arg_widgets, selected_id_station = Some (PyStr ''10001'') \<rparr>,
        Raised AttributeError)"
proof -
  let ?st = "\<lparr> widget_values = ex_arg_widgets, selected_id_station = Some (PyStr ''10001'') \<rparr>"
  have 1: "filter (\<lambda>r. JENIS r = ''ARG'') ex_cross = [ex_dashed]"
    by (simp add: ex_cross_def ex_dashed_def ex_defs)
  have 2: "id_station_str ex_dashed = ''A - 1''"
    by (simp add: id_station_str_def ex_dashed_def ex_defs)
  have 3: "sidebar_block ex_cross (Some ''ARG'') ?st
     = (\<lparr> widget_values = ex_arg_widgets, selected_id_station = Some (PyStr ''A'') \<rparr>,
        Done (Some ''A''))"
    by (simp add: sidebar_block_def get_filtered_data_def default_index_def selectbox_def
        display_def id_station_str_def index0_def ex_cross_def ex_dashed_def ex_defs
        ex_arg_widgets_def)
  have at: "active_type ex_cross ?st = Some ''ARG''"
    by (simp add: active_type_def radio_def station_types_def unique_def ex_cross_def
        ex_dashed_def ex_defs ex_arg_widgets_def)
  have nb: "\<not> use_button (widget_values ?st)"
    by (simp add: ex_arg_widgets_def idle_widgets_def)
  have 4: "selected_id_station (fst (main (Some ex_cross) ?st)) = Some (PyStr ''A'')"
    using main_sel_after_sidebar [OF _ nb at] 3 by simp
  have 5: "sidebar_block ex_cross_nameless (Some ''ARG'') ?st = (?st, Raised AttributeError)"
    by (simp add: sidebar_block_def get_filtered_data_def default_index_def selectbox_def
        display_def id_station_str_def index0_def ex_cross_nameless_def ex_nameless_def ex_defs
        ex_arg_widgets_def)
  show ?thesis using 1 2 3 4 5 by simp
qed

section \<open>Search\<close>

lemma re_compile_plain: "set t \<inter> set re_special = {} \<Longrightarrow> re_compile t = Some (map Lit t)"
proof (induction t)
  case Nil
  then show ?case by simp
next
  case (Cons c t)
  then have "c \<notin> set re_special" and "set t \<inter> set re_special = {}" by auto
  moreover from this have "c \<noteq> CHR ''.''" by (auto simp: re_special_def)
  ultimately show ?case using Cons.IH by simp
qed

lemma match_here_lit:
  "match_here (map Lit t) s \<longleftrightarrow> prefix (map lower_char t) (map lower_char s)"
proof (induction t arbitrary: s)
  case Nil
  then show ?case by simp
next
  case (Cons c t)
  then show ?case by (cases s) auto
qed

lemma re_search_lit:
  "re_search (map Lit t) s \<longleftrightarrow> sublist (map lower_char t) (map lower_char s)"
proof (induction s)
  case Nil
  then show ?case by (cases t) simp_all
next
  case (Cons c s)
  then show ?case by (simp add: match_here_lit sublist_Cons_right)
qed

lemma cell_contains_lit: "cell_contains (map Lit t) cell = ci_substring t cell"
  by (simp add: cell_contains_def ci_substring_def re_search_lit split: option.splits)

text \<open>
  Claim C8, amended. For a search term with no character of the regular-expression
  syntax, \<open>search\<close> returns exactly the rows whose name, province or district contains the
  term as a substring up to (ASCII) case, in table order; the empty term returns the
  whole table.
\<close>

theorem search_plain_term_is_substring_search:
  assumes "set t \<inter> set re_special = {}"
  shows "search df t = Some (search_spec df t) \<and> search df [] = Some df"
proof -
  have "search_mask (map Lit t) = (\<lambda>r::station. ci_substring t (name_station r)
          \<or> ci_substring t (nama_propinsi r) \<or> ci_substring t (nama_kota r))"
    by (rule ext) (simp add: search_mask_def cell_contains_lit)
  then show ?thesis
    using re_compile_plain [OF assms] by (simp add: search_def search_spec_def)
qed

theorem search_plain_term_is_substring_search_witness:
  "set ''jakarta'' \<inter> set re_special = {}
   \<and> search ex_jakarta ''jakarta'' = Some [ex_jakarta ! 0]
   \<and> search ex_jakarta [] = Some ex_jakarta"
proof -
  have h: "set ''jakarta'' \<inter> set re_special = {}" by (simp add: re_special_def)
  have "search_spec ex_jakarta ''jakarta'' = [ex_jakarta ! 0]"
    by (simp add: search_spec_def ci_substring_def ex_jakarta_def ex_defs lower_char_def
        sublist_code)
  then show ?thesis using search_plain_term_is_substring_search [OF h, of ex_jakarta] h by simp
qed

text \<open>
  As stated for every term, the claim fails: the term is compiled as a regular
  expression, so a single dot finds every station of the example table although no
  name, province or district contains a dot.
\<close>

theorem search_plain_term_is_substring_search_counterexample:
  "search ex_table ''.'' = Some ex_table \<and> search_spec ex_table ''.'' = []"
  by (simp add: search_def search_mask_def cell_contains_def search_spec_def ci_substring_def
      ex_defs lower_char_def sublist_code)

end
